theory Spec2Isabelle
  imports Complex_Main "HOL-Library.Sublist"
begin

section \<open>Strings of the host language\<close>

text \<open>
  A string is a list of characters, one \<^typ>\<open>char\<close> per code unit (the code units below
  256), so that \<open>length\<close> is the \<open>length\<close> property of the source language.
  \<open>s.startsWith(p)\<close> is \<open>startsWith s p\<close>, \<open>s.includes(p)\<close> is \<open>str_includes s p\<close>.
  \<open>toLowerCase\<close> maps the letters A to Z; the source compares lower-cased strings only
  with words of such letters (\<open>none\<close>, a header name), for which no other character
  matters.
\<close>

definition startsWith :: "string \<Rightarrow> string \<Rightarrow> bool" where
  "startsWith s p = prefix p s"

fun str_includes :: "string \<Rightarrow> string \<Rightarrow> bool" where
  "str_includes [] p = (p = [])"
| "str_includes (c # cs) p = (prefix p (c # cs) \<or> str_includes cs p)"

definition toLowerChar :: "char \<Rightarrow> char" where
  "toLowerChar c =
     (case map_of (zip ''ABCDEFGHIJKLMNOPQRSTUVWXYZ'' ''abcdefghijklmnopqrstuvwxyz'') c of
        Some d \<Rightarrow> d
      | None \<Rightarrow> c)"

definition toLowerCase :: "string \<Rightarrow> string" where
  "toLowerCase s = map toLowerChar s"

text \<open>
  The UTF-8 bytes of a code unit: one byte below 128, two bytes from 128 to 255.
\<close>

definition utf8 :: "char \<Rightarrow> nat list" where
  "utf8 c =
     (let n = (of_char c :: nat) in if n < 128 then [n] else [192 + n div 64, 128 + n mod 64])"

section \<open>The Node response abstraction\<close>

subsection \<open>The underlying server response\<close>

text \<open>
  \<open>NodeResponse\<close> wraps a \<open>ServerResponse\<close> of the platform. The model keeps what
  \<open>setCookie\<close> and \<open>redirect\<close> read and write:
  \<^item> \<open>writableEnded\<close>, set by \<open>end\<close>;
  \<^item> \<open>hasBody\<close>, false for the response to a HEAD request and once the head is rendered
    with a status that carries no body;
  \<^item> \<open>statusCode\<close> and \<open>statusMessage\<close> (empty while the application has set none; the
    platform then renders its standard phrase);
  \<^item> \<open>outHeaders\<close>, the table \<open>setHeader\<close> fills, absent until the first \<open>setHeader\<close> and
    keyed by the lower-cased name, in the order of insertion;
  \<^item> \<open>sent_head\<close>, the status and the header fields with which the head was rendered,
    absent while the head has not been rendered (the platform adds fields of its own, such
    as the date, which are left out);
  \<^item> \<open>written\<close>, the text written to the body.

  A header value is a string or an array of strings (the source's cast
  \<open>cookies as string\<close> leaves out the numeric kind). An operation of the platform that
  throws returns \<open>Inl\<close> with the error and the response as the throw left it.
\<close>

datatype header_value = HString string | HArray "string list"

datatype node_error =
    ERR_HTTP_HEADERS_SENT
  | ERR_HTTP_INVALID_STATUS_CODE
  | ERR_INVALID_HTTP_TOKEN
  | ERR_INVALID_CHAR
  | SerializeTypeError

record server_response =
  writableEnded :: bool
  hasBody :: bool
  statusCode :: nat
  statusMessage :: string
  outHeaders :: "(string \<times> header_value) list option"
  sent_head :: "(nat \<times> (string \<times> header_value) list) option"
  written :: string

type_synonym outcome = "(node_error \<times> server_response) + server_response"

text \<open>
  The platform admits in a header value (and in the status message) the tab, the code
  units 32 to 126 and those from 128, and as a header name a non-empty token.
\<close>

definition header_char_ok :: "char \<Rightarrow> bool" where
  "header_char_ok c =
     (let n = (of_char c :: nat) in n = 9 \<or> (32 \<le> n \<and> n \<le> 126) \<or> 128 \<le> n)"

fun header_value_ok :: "header_value \<Rightarrow> bool" where
  "header_value_ok (HString s) = list_all header_char_ok s"
| "header_value_ok (HArray xs) = list_all (list_all header_char_ok) xs"

definition header_name_char :: "char \<Rightarrow> bool" where
  "header_name_char c =
     (c \<in> set (''ABCDEFGHIJKLMNOPQRSTUVWXYZabcdefghijklmnopqrstuvwxyz0123456789''
               @ ''^_-!#$%&*+.|~'' @ [CHR 0x27, CHR 0x60]))"

definition header_name_ok :: "string \<Rightarrow> bool" where
  "header_name_ok name = (name \<noteq> [] \<and> list_all header_name_char name)"

fun put :: "string \<Rightarrow> header_value \<Rightarrow> (string \<times> header_value) list \<Rightarrow> (string \<times> header_value) list" where
  "put k v [] = [(k, v)]"
| "put k v ((k', v') # t) = (if k' = k then (k, v) # t else (k', v') # put k v t)"

definition table :: "server_response \<Rightarrow> (string \<times> header_value) list" where
  "table res = (case outHeaders res of None \<Rightarrow> [] | Some t \<Rightarrow> t)"

definition getHeader :: "server_response \<Rightarrow> string \<Rightarrow> header_value option" where
  "getHeader res name = map_of (table res) (toLowerCase name)"

text \<open>
  \<open>setHeader\<close> throws once the head is rendered, for a name that is no token and for a
  value with a character the platform does not admit; nothing is set then.
\<close>

definition setHeader :: "server_response \<Rightarrow> string \<Rightarrow> header_value \<Rightarrow> outcome" where
  "setHeader res name v =
     (if sent_head res \<noteq> None then Inl (ERR_HTTP_HEADERS_SENT, res)
      else if \<not> header_name_ok name then Inl (ERR_INVALID_HTTP_TOKEN, res)
      else if \<not> header_value_ok v then Inl (ERR_INVALID_CHAR, res)
      else Inr (res\<lparr>outHeaders := Some (put (toLowerCase name) v (table res))\<rparr>))"

text \<open>
  \<open>writeHead(status, fields)\<close> throws when the head is already rendered and for a status
  outside 100 to 999. It then assigns the status. When the table exists, each field with
  a non-empty name goes through \<open>setHeader\<close> and the head is rendered from the table;
  otherwise the head is rendered from the fields alone, which are checked as they are
  rendered, and the table stays absent. The status message is checked before the head is
  rendered. The statuses 1xx, 204 and 304 carry no body.
\<close>

fun set_fields :: "server_response \<Rightarrow> (string \<times> header_value) list \<Rightarrow> outcome" where
  "set_fields res [] = Inr res"
| "set_fields res ((k, v) # fs) =
     (if k = [] then set_fields res fs
      else (case setHeader res k v of Inl e \<Rightarrow> Inl e | Inr r \<Rightarrow> set_fields r fs))"

fun first_invalid :: "(string \<times> header_value) list \<Rightarrow> node_error option" where
  "first_invalid [] = None"
| "first_invalid ((k, v) # fs) =
     (if \<not> header_name_ok k then Some ERR_INVALID_HTTP_TOKEN
      else if \<not> header_value_ok v then Some ERR_INVALID_CHAR
      else first_invalid fs)"

definition bodyless :: "nat \<Rightarrow> bool" where
  "bodyless status = (status = 204 \<or> status = 304 \<or> (100 \<le> status \<and> status \<le> 199))"

definition render_head ::
  "server_response \<Rightarrow> nat \<Rightarrow> (string \<times> header_value) list \<Rightarrow> server_response" where
  "render_head res status fs =
     res\<lparr>sent_head := Some (status, fs), hasBody := (hasBody res \<and> \<not> bodyless status)\<rparr>"

definition writeHead :: "server_response \<Rightarrow> nat \<Rightarrow> (string \<times> header_value) list \<Rightarrow> outcome" where
  "writeHead res status obj =
     (if sent_head res \<noteq> None then Inl (ERR_HTTP_HEADERS_SENT, res)
      else if status < 100 \<or> 999 < status then Inl (ERR_HTTP_INVALID_STATUS_CODE, res)
      else
        let res = res\<lparr>statusCode := status\<rparr> in
        if outHeaders res \<noteq> None then
          (case set_fields res obj of
             Inl e \<Rightarrow> Inl e
           | Inr r \<Rightarrow>
               if \<not> list_all header_char_ok (statusMessage r) then Inl (ERR_INVALID_CHAR, r)
               else Inr (render_head r status (table r)))
        else if \<not> list_all header_char_ok (statusMessage res) then Inl (ERR_INVALID_CHAR, res)
        else (case first_invalid obj of
                Some e \<Rightarrow> Inl (e, res)
              | None \<Rightarrow> Inr (render_head res status (map (\<lambda>(k, v). (toLowerCase k, v)) obj))))"

text \<open>
  \<open>end(data)\<close> does nothing on a response that is already ended. Otherwise it renders the
  head with the current status if that has not happened, writes the data unless the
  response carries no body, and ends the response.
\<close>

definition end_response :: "server_response \<Rightarrow> string \<Rightarrow> outcome" where
  "end_response res data =
     (if writableEnded res then Inr res
      else
        (case (if sent_head res = None then writeHead res (statusCode res) [] else Inr res) of
           Inl e \<Rightarrow> Inl e
         | Inr r \<Rightarrow>
             Inr (r\<lparr>written := (if hasBody r then written r @ data else written r),
                    writableEnded := True\<rparr>)))"

text \<open>
  The truth value the source language gives a header value in \<open>v || fallback\<close>: the
  empty string is falsy, every array is truthy. \<open>or_else\<close> is \<open>getHeader(..) || d\<close>.
\<close>

fun truthy :: "header_value \<Rightarrow> bool" where
  "truthy (HString s) = (s \<noteq> [])"
| "truthy (HArray xs) = True"

fun or_else :: "header_value option \<Rightarrow> header_value \<Rightarrow> header_value" where
  "or_else None d = d"
| "or_else (Some v) d = (if truthy v then v else d)"

subsection \<open>setCookie and redirect\<close>



text \<open>
  \<open>htmlSafe\<close> lives in the errors utilities of the repository and is a parameter here.
  The \<open>status\<close> argument is optional and defaults to 302.
\<close>

definition redirect ::
  "(string \<Rightarrow> string) \<Rightarrow> server_response \<Rightarrow> string \<Rightarrow> nat option \<Rightarrow> outcome" where
  "redirect htmlSafe res location status_arg =
     (let status = (case status_arg of None \<Rightarrow> 302 | Some s \<Rightarrow> s)
      in if writableEnded res then Inr res
         else
           (case writeHead res status
                   [(''Location'', or_else (getHeader res ''Location'') (HString location))] of
              Inl e \<Rightarrow> Inl e
            | Inr r \<Rightarrow> end_response r (htmlSafe location)))"

subsection \<open>Reading a response\<close>




definition sent_field :: "server_response \<Rightarrow> string \<Rightarrow> header_value option" where
  "sent_field res name =
     (case sent_head res of None \<Rightarrow> None | Some (st, fs) \<Rightarrow> map_of fs (toLowerCase name))"

definition sent_status :: "server_response \<Rightarrow> nat option" where
  "sent_status res = map_option fst (sent_head res)"

definition status_or_302 :: "nat option \<Rightarrow> nat" where
  "status_or_302 status_arg = (case status_arg of None \<Rightarrow> 302 | Some s \<Rightarrow> s)"

subsection \<open>Instances for the concrete runs\<close>

text \<open>
  Modelled from the spec: \<open>htmlSafe\<close> of the errors utilities, which HTML-escapes its
  argument. This instance replaces the five characters that are special in HTML and is
  used for the concrete runs below; the theorems hold for every \<open>htmlSafe\<close>.
\<close>

fun html_escape :: "string \<Rightarrow> string" where
  "html_escape [] = []"
| "html_escape (c # cs) =
     (if c = CHR ''&'' then ''&amp;''
      else if c = CHR ''<'' then ''&lt;''
      else if c = CHR ''>'' then ''&gt;''
      else if c = CHR 0x22 then ''&quot;''
      else if c = CHR 0x27 then ''&#39;''
      else [c]) @ html_escape cs"



text \<open>
  A fresh response; the same response with two cookies set; with an empty and with a
  non-empty Location set; and a response that has been ended.
\<close>

definition fresh_response :: server_response where
  "fresh_response =
     \<lparr>writableEnded = False, hasBody = True, statusCode = 200, statusMessage = [],
      outHeaders = None, sent_head = None, written = []\<rparr>"


definition empty_location_response :: server_response where
  "empty_location_response = fresh_response\<lparr>outHeaders := Some [(''location'', HString [])]\<rparr>"

definition first_location_response :: server_response where
  "first_location_response =
     fresh_response\<lparr>outHeaders := Some [(''location'', HString ''/first'')]\<rparr>"


section \<open>The Auth-Required Gate\<close>

subsection \<open>Splitting and joining strings\<close>

text \<open>
  \<open>xs.join(sep)\<close> and \<open>s.split(sep)\<close> of the source language. An empty separator
  splits into single characters; with any other separator the empty string gives one empty
  piece.
\<close>

fun join :: "string \<Rightarrow> string list \<Rightarrow> string" where
  "join sep [] = []"
| "join sep [x] = x"
| "join sep (x # y # ys) = x @ sep @ join sep (y # ys)"

function split :: "string \<Rightarrow> string \<Rightarrow> string list" where
  "split [] sep = (if sep = [] then [] else [[]])"
| "split (c # cs) sep =
     (if sep = [] then map (\<lambda>x. [x]) (c # cs)
      else if prefix sep (c # cs) then [] # split (drop (length sep) (c # cs)) sep
      else (case split cs sep of w # ws \<Rightarrow> (c # w) # ws | [] \<Rightarrow> [[c]]))"
  by pat_completeness auto
termination
  by (relation "measure (\<lambda>(s, sep). length s)") (auto simp: neq_Nil_conv)

subsection \<open>encodeURIComponent\<close>

text \<open>
  Letters, digits and \<open>- _ . ! ~ * ' ( )\<close> are kept; every other code unit is written as
  the percent-encoded bytes of its UTF-8 form (a byte is below 256, so both hexadecimal
  digits are below 16). The path and the query of a parsed URL hold only code units below
  128.
\<close>

definition hexDigit :: "nat \<Rightarrow> char" where
  "hexDigit n = ''0123456789ABCDEF'' ! n"

definition percent :: "nat \<Rightarrow> string" where
  "percent b = [CHR ''%'', hexDigit (b div 16), hexDigit (b mod 16)]"

definition uriUnreserved :: "char \<Rightarrow> bool" where
  "uriUnreserved c =
     (c \<in> set (''ABCDEFGHIJKLMNOPQRSTUVWXYZabcdefghijklmnopqrstuvwxyz0123456789''
               @ ''-_.!~*()'' @ [CHR 0x27]))"

definition encodeChar :: "char \<Rightarrow> string" where
  "encodeChar c = (if uriUnreserved c then [c] else concat (map percent (utf8 c)))"

definition encodeURIComponent :: "string \<Rightarrow> string" where
  "encodeURIComponent s = concat (map encodeChar s)"

subsection \<open>Requests, headers and responses of the middleware runtime\<close>

text \<open>
  The request carries the \<open>pathname\<close>, \<open>origin\<close> and \<open>search\<close> of its \<open>nextUrl\<close>. A
  \<open>Headers\<close> object is a list of name and value pairs with lower-cased names; \<open>get\<close>
  joins the values of a name with a comma and a space and gives nothing when the name is
  absent; \<open>set\<close> replaces every value of the name by one.
\<close>

record request =
  pathname :: string
  origin :: string
  search :: string

type_synonym headers = "(string \<times> string) list"

definition headers_values :: "headers \<Rightarrow> string \<Rightarrow> string list" where
  "headers_values hs name = map snd (filter (\<lambda>kv. fst kv = toLowerCase name) hs)"

definition headers_get :: "headers \<Rightarrow> string \<Rightarrow> string option" where
  "headers_get hs name =
     (if headers_values hs name = [] then None else Some (join '', '' (headers_values hs name)))"

definition headers_set :: "headers \<Rightarrow> string \<Rightarrow> string \<Rightarrow> headers" where
  "headers_set hs name v =
     filter (\<lambda>kv. fst kv \<noteq> toLowerCase name) hs @ [(toLowerCase name, v)]"

datatype body = NoBody | JsonBody "(string \<times> string) list"

record response =
  status :: nat
  headers :: headers
  body :: body

text \<open>
  The three constructors of \<open>NextResponse\<close> the gate calls, as the framework documents
  them: \<open>next\<close> marks the response with the header \<open>x-middleware-next\<close> and takes an
  optional status and header list; \<open>json\<close> carries the data with the given status;
  \<open>redirect\<close>, called without a status, answers 307 with the URL in \<open>location\<close>.
\<close>

definition NextResponse_next :: "(nat \<times> headers) option \<Rightarrow> response" where
  "NextResponse_next init =
     (case init of
        None \<Rightarrow> \<lparr>status = 200, headers = [(''x-middleware-next'', ''1'')], body = NoBody\<rparr>
      | Some (st, hs) \<Rightarrow>
          \<lparr>status = st, headers = headers_set hs ''x-middleware-next'' ''1'', body = NoBody\<rparr>)"

definition NextResponse_json :: "(string \<times> string) list \<Rightarrow> nat \<Rightarrow> response" where
  "NextResponse_json data st =
     \<lparr>status = st, headers = [(''content-type'', ''application/json'')], body = JsonBody data\<rparr>"

definition NextResponse_redirect :: "string \<Rightarrow> response" where
  "NextResponse_redirect url = \<lparr>status = 307, headers = [(''location'', url)], body = NoBody\<rparr>"

subsection \<open>withMiddlewareAuthRequired\<close>

text \<open>
  A session has an optional \<open>user\<close>; \<open>!session?.user\<close> holds when there is no session or
  the session has no user.
\<close>

record 'u session =
  user :: "'u option"

definition no_user :: "'u session option \<Rightarrow> bool" where
  "no_user s = (case s of None \<Rightarrow> True | Some x \<Rightarrow> user x = None)"

definition ignorePaths :: "string \<Rightarrow> string \<Rightarrow> string list" where
  "ignorePaths login callback = [login, callback, ''/_next'', ''/favicon.ico'']"

definition not_authenticated :: "(string \<times> string) list" where
  "not_authenticated =
     [(''error'', ''not_authenticated''),
      (''description'', ''The user does not have an active session or is not authenticated'')]"

text \<open>
  \<open>wrappedMiddleware\<close>. The parameters are: \<open>new_URL\<close>, the platform's resolution of a
  relative reference against a base into the text of a URL; the \<open>login\<close> and \<open>callback\<close>
  routes; \<open>sessionCache_get\<close>, which returns the session and the response it was handed,
  with the cookies the resolution wrote; and the optional downstream \<open>middleware\<close>. The
  downstream middleware acts on a state \<open>w\<close> of its own, which the gate threads through:
  the state changes only where the middleware is invoked. The result \<open>None\<close> is the
  source's \<open>undefined\<close>.
\<close>

definition wrappedMiddleware ::
  "(string \<Rightarrow> string \<Rightarrow> string) \<Rightarrow> string \<Rightarrow> string \<Rightarrow>
   (request \<Rightarrow> response \<Rightarrow> 'u session option \<times> response) \<Rightarrow>
   (request \<Rightarrow> 'e \<Rightarrow> 'w \<Rightarrow> response option \<times> 'w) option \<Rightarrow>
   request \<Rightarrow> 'e \<Rightarrow> 'w \<Rightarrow> response option \<times> 'w" where
  "wrappedMiddleware new_URL login callback sessionCache_get middleware req ev w =
     (if list_ex (\<lambda>p. startsWith (pathname req) p) (ignorePaths login callback) then (None, w)
      else
        let (session, authRes) = sessionCache_get req (NextResponse_next None) in
        if no_user session then
          (if startsWith (pathname req) ''/api''
           then (Some (NextResponse_json not_authenticated 401), w)
           else (Some (NextResponse_redirect
                   (new_URL (login @ ''?returnTo='' @ encodeURIComponent (pathname req @ search req))
                      (origin req))), w))
        else
          (case (case middleware of None \<Rightarrow> (None, w) | Some m \<Rightarrow> m req ev w) of
             (None, w') \<Rightarrow> (Some authRes, w')
           | (Some res, w') \<Rightarrow>
               let hs = headers res;
                   cookies = (case headers_get hs ''set-cookie'' of
                                None \<Rightarrow> [] | Some v \<Rightarrow> split v '', '');
                   authCookies = (case headers_get (headers authRes) ''set-cookie'' of
                                    None \<Rightarrow> [] | Some v \<Rightarrow> split v '', '');
                   hs = (if cookies \<noteq> [] \<or> authCookies \<noteq> []
                         then headers_set hs ''set-cookie'' (join '', '' (authCookies @ cookies))
                         else hs)
               in (Some (NextResponse_next (Some (status res, hs))), w')))"

text \<open>
  Instances for the concrete runs: a base that is an origin and a reference that is an
  absolute path resolve to their concatenation; a session cache that finds no session; a
  session cache that finds a user and renews the session cookie; a downstream middleware
  that counts its invocations and sets a cookie of its own.
\<close>

definition origin_relative :: "string \<Rightarrow> string \<Rightarrow> string" where
  "origin_relative reference base = base @ reference"

definition anonymous_cache :: "request \<Rightarrow> response \<Rightarrow> unit session option \<times> response" where
  "anonymous_cache req res = (None, res)"

definition renewing_cache :: "request \<Rightarrow> response \<Rightarrow> unit session option \<times> response" where
  "renewing_cache req res =
     (Some \<lparr>user = Some ()\<rparr>, res\<lparr>headers := headers res @ [(''set-cookie'', ''appSession=renewed'')]\<rparr>)"

definition counting_middleware :: "request \<Rightarrow> unit \<Rightarrow> nat \<Rightarrow> response option \<times> nat" where
  "counting_middleware req ev n =
     (Some \<lparr>status = 200, headers = [(''set-cookie'', ''hl=en'')], body = NoBody\<rparr>, Suc n)"

definition request_to :: "string \<Rightarrow> request" where
  "request_to path = \<lparr>pathname = path, origin = ''http://example.com'', search = []\<rparr>"

section \<open>The configuration validator\<close>

subsection \<open>Validation results\<close>

text \<open>
  A validation error names the key of the schema that failed, as a dotted path, and
  carries the message the schema attaches to the failing rule where the source gives one
  (otherwise the library words its message around the key). The library stops at the
  first error; \<open>and_then\<close> sequences the keys.
\<close>

datatype joi_error = JoiError (key: string) (message: "string option")

datatype exn = TypeError joi_error

definition fail :: "string \<Rightarrow> joi_error + 'a" where
  "fail k = Inl (JoiError k None)"

definition fail_with :: "string \<Rightarrow> string \<Rightarrow> joi_error + 'a" where
  "fail_with k msg = Inl (JoiError k (Some msg))"

definition and_then :: "'e + 'a \<Rightarrow> ('a \<Rightarrow> 'e + 'b) \<Rightarrow> 'e + 'b" where
  "and_then m f = (case m of Inl e \<Rightarrow> Inl e | Inr x \<Rightarrow> f x)"

definition default_to :: "'a \<Rightarrow> 'a option \<Rightarrow> 'a" where
  "default_to d v = (case v of None \<Rightarrow> d | Some x \<Rightarrow> x)"

definition rollingDuration_integer_message :: string where
  \<open>rollingDuration_integer_message =
     ''"session.rollingDuration" must be provided an integer value when "session.rolling" is true''\<close>

definition rollingDuration_false_message :: string where
  \<open>rollingDuration_false_message =
     ''"session.rollingDuration" must be false when "session.rolling" is disabled''\<close>

definition absoluteDuration_integer_message :: string where
  \<open>absoluteDuration_integer_message =
     ''"session.absoluteDuration" must be provided an integer value when "session.rolling" is false''\<close>

definition clientSecret_code_message :: string where
  \<open>clientSecret_code_message =
     ''"clientSecret" is required for a response_type that includes code''\<close>

definition clientSecret_hmac_message :: string where
  \<open>clientSecret_hmac_message =
     ''"clientSecret" is required for ID tokens with HMAC based algorithms''\<close>

subsection \<open>Configuration parameters and the validated configuration\<close>

text \<open>
  \<open>ConfigParameters\<close> is \<open>DeepPartial<Config>\<close>: every field is optional. The field
  types follow the \<open>Config\<close> interface, widened where the schema accepts a further kind:
  a duration is a number or a boolean, a login or logout route is a string or a boolean.
  Numbers are rationals (the finite values of the source's numbers are among them). The
  fields of the parameters carry the prefix \<open>p_\<close>; the fields of the validated \<open>Config\<close>
  have the names of the interface. \<open>getLoginState\<close> is a function of the host
  application, of type \<open>'f\<close>. A value the library would first convert (a numeric string
  for a number, \<open>'true'\<close> for a boolean) is represented by the value it converts to; a
  value of a kind the schema refuses for the key, and a key the schema does not know, have
  no representation: the library rejects them.
\<close>

datatype duration = Seconds rat | Flag bool

datatype route = Route string | RouteFlag bool

datatype secret_parameter = SecretString string | SecretArray "string list"

record cookie_parameters =
  p_domain :: "string option"
  p_transient :: "bool option"
  p_httpOnly :: "bool option"
  p_sameSite :: "string option"
  p_secure :: "bool option"
  p_path :: "string option"

record session_parameters =
  p_rolling :: "bool option"
  p_rollingDuration :: "duration option"
  p_absoluteDuration :: "duration option"
  p_name :: "string option"
  p_cookie :: "cookie_parameters option"

record authorization_input =
  p_response_type :: "string option"
  p_scope :: "string option"
  p_response_mode :: "string option"
  p_unknown :: "(string \<times> string) list"

record routes_parameters =
  p_login :: "route option"
  p_logout :: "route option"
  p_callback :: "string option"
  p_postLogoutRedirect :: "string option"

record 'f config_parameters =
  p_secret :: "secret_parameter option"
  p_session :: "session_parameters option"
  p_auth0Logout :: "bool option"
  p_authorizationParams :: "authorization_input option"
  p_baseURL :: "string option"
  p_clientID :: "string option"
  p_clientSecret :: "string option"
  p_clockTolerance :: "rat option"
  p_enableTelemetry :: "bool option"
  p_errorOnRequiredAuth :: "bool option"
  p_attemptSilentLogin :: "bool option"
  p_getLoginState :: "'f option"
  p_identityClaimFilter :: "string list option"
  p_idpLogout :: "bool option"
  p_idTokenSigningAlg :: "string option"
  p_issuerBaseURL :: "string option"
  p_legacySameSiteCookie :: "bool option"
  p_authRequired :: "bool option"
  p_routes :: "routes_parameters option"

text \<open>
  A validated secret is a string, or the bytes the schema's binary alternative converts a
  string into.
\<close>

datatype key_material = KeyString string | KeyBuffer "nat list"

datatype secret_config = SingleKey key_material | KeyList "key_material list"

record cookie_config =
  domain :: "string option"
  path :: "string option"
  transient :: bool
  httpOnly :: bool
  secure :: "bool option"
  sameSite :: string

record session_config =
  name :: string
  rolling :: bool
  rollingDuration :: duration
  absoluteDuration :: duration
  cookie :: cookie_config

record authorization_parameters =
  scope :: string
  response_mode :: "string option"
  response_type :: string
  unknown_parameters :: "(string \<times> string) list"

record routes_config =
  login :: route
  logout :: route
  postLogoutRedirect :: string
  callback :: string

record 'f config =
  secret :: secret_config
  session :: session_config
  auth0Logout :: bool
  authorizationParams :: authorization_parameters
  baseURL :: string
  clientID :: string
  clientSecret :: "string option"
  clockTolerance :: rat
  enableTelemetry :: bool
  errorOnRequiredAuth :: bool
  attemptSilentLogin :: bool
  getLoginState :: 'f
  identityClaimFilter :: "string list"
  idpLogout :: bool
  idTokenSigningAlg :: string
  issuerBaseURL :: string
  legacySameSiteCookie :: bool
  authRequired :: bool
  routes :: routes_config

subsection \<open>The rules of the schema library\<close>

text \<open>
  The library's check of a URI against RFC 3986 is not part of the repository: it is the
  parameter \<open>uri\<close> of the validator, asked in one of the three modes the schema uses
  (\<open>uri()\<close>, \<open>uri({relativeOnly: true})\<close>, \<open>uri({allowRelative: true})\<close>).
\<close>

datatype uri_mode = Absolute | RelativeOnly | AllowRelative

text \<open>
  \<open>Joi.string()\<close> refuses the empty string. \<open>Joi.number()\<close> refuses a number outside
  the safe integers; \<open>integer()\<close> asks for a whole number. \<open>token()\<close> asks for letters,
  digits and underscores. The scope pattern \<open>/\bopenid\b/\<close> asks for the word \<open>openid\<close>
  with no word character next to it. \<open>Buffer.from\<close> of a string is its UTF-8 bytes.
\<close>

definition string_rule :: "string \<Rightarrow> string \<Rightarrow> joi_error + string" where
  "string_rule k s = (if s = [] then fail k else Inr s)"

definition uri_rule :: "(uri_mode \<Rightarrow> string \<Rightarrow> bool) \<Rightarrow> uri_mode \<Rightarrow> string \<Rightarrow> string \<Rightarrow> joi_error + string" where
  "uri_rule uri mode k s = (if s = [] then fail k else if uri mode s then Inr s else fail k)"

definition MAX_SAFE_INTEGER :: rat where
  "MAX_SAFE_INTEGER = 9007199254740991"

definition number_rule :: "string \<Rightarrow> rat \<Rightarrow> joi_error + rat" where
  "number_rule k r = (if r > MAX_SAFE_INTEGER \<or> r < - MAX_SAFE_INTEGER then fail k else Inr r)"

definition is_integer :: "rat \<Rightarrow> bool" where
  "is_integer r = (of_int \<lfloor>r\<rfloor> = r)"

definition integer_rule :: "string \<Rightarrow> rat \<Rightarrow> joi_error + rat" where
  "integer_rule k r = and_then (number_rule k r) (\<lambda>r. if is_integer r then Inr r else fail k)"

definition word_char :: "char \<Rightarrow> bool" where
  "word_char c =
     (c \<in> set ''ABCDEFGHIJKLMNOPQRSTUVWXYZabcdefghijklmnopqrstuvwxyz0123456789_'')"

definition token :: "string \<Rightarrow> bool" where
  "token s = (s \<noteq> [] \<and> list_all word_char s)"

fun contains_word :: "bool \<Rightarrow> string \<Rightarrow> string \<Rightarrow> bool" where
  "contains_word after_word w [] = False"
| "contains_word after_word w (c # cs) =
     ((\<not> after_word \<and> prefix w (c # cs)
        \<and> (case drop (length w) (c # cs) of [] \<Rightarrow> True | d # ds \<Rightarrow> \<not> word_char d))
      \<or> contains_word (word_char c) w cs)"

definition contains_openid :: "string \<Rightarrow> bool" where
  "contains_openid s = contains_word False ''openid'' s"

definition Buffer_from :: "string \<Rightarrow> nat list" where
  "Buffer_from s = concat (map utf8 s)"

subsection \<open>paramsSchema, key by key\<close>

text \<open>
  \<open>secret\<close>: required; a string of at least 8 characters, or a value of at least 8
  bytes (a string is converted to its bytes), or an array of such items.
\<close>

definition secret_item :: "string \<Rightarrow> key_material option" where
  "secret_item s =
     (if 8 \<le> length s then Some (KeyString s)
      else if 8 \<le> length (Buffer_from s) then Some (KeyBuffer (Buffer_from s))
      else None)"

definition validate_secret :: "secret_parameter option \<Rightarrow> joi_error + secret_config" where
  "validate_secret v =
     (case v of
        None \<Rightarrow> fail ''secret''
      | Some (SecretString s) \<Rightarrow>
          (case secret_item s of None \<Rightarrow> fail ''secret'' | Some k \<Rightarrow> Inr (SingleKey k))
      | Some (SecretArray xs) \<Rightarrow>
          (case those (map secret_item xs) of
             None \<Rightarrow> fail ''secret''
           | Some ks \<Rightarrow> Inr (KeyList ks)))"

text \<open>
  \<open>session\<close>. The keys that refer to \<open>rolling\<close> are validated after it and see its
  validated value. An omitted \<open>rollingDuration\<close> defaults to one day when rolling and to
  \<open>false\<close> otherwise; an omitted \<open>absoluteDuration\<close> defaults to seven days. The
  alternative \<open>boolean().valid(false)\<close> refuses every value but \<open>false\<close> under the rule
  \<open>any.only\<close>, which is checked before the type.
\<close>

definition validate_rollingDuration :: "bool \<Rightarrow> duration option \<Rightarrow> joi_error + duration" where
  "validate_rollingDuration is_rolling v =
     (case v of
        None \<Rightarrow> Inr (if is_rolling then Seconds (24 * 60 * 60) else Flag False)
      | Some d \<Rightarrow>
          if is_rolling then
            (case d of
               Seconds r \<Rightarrow> and_then (integer_rule ''session.rollingDuration'' r) (\<lambda>r. Inr (Seconds r))
             | Flag b \<Rightarrow> fail_with ''session.rollingDuration'' rollingDuration_integer_message)
          else
            (if d = Flag False then Inr (Flag False)
             else fail_with ''session.rollingDuration'' rollingDuration_false_message))"

definition validate_absoluteDuration :: "bool \<Rightarrow> duration option \<Rightarrow> joi_error + duration" where
  "validate_absoluteDuration is_rolling v =
     (case v of
        None \<Rightarrow> Inr (Seconds (7 * 24 * 60 * 60))
      | Some d \<Rightarrow>
          if \<not> is_rolling then
            (case d of
               Seconds r \<Rightarrow> and_then (integer_rule ''session.absoluteDuration'' r) (\<lambda>r. Inr (Seconds r))
             | Flag b \<Rightarrow> fail_with ''session.absoluteDuration'' absoluteDuration_integer_message)
          else
            (case d of
               Seconds r \<Rightarrow> and_then (integer_rule ''session.absoluteDuration'' r) (\<lambda>r. Inr (Seconds r))
             | Flag b \<Rightarrow> if b then fail ''session.absoluteDuration'' else Inr (Flag False)))"

definition validate_name :: "string option \<Rightarrow> joi_error + string" where
  "validate_name v =
     (case v of
        None \<Rightarrow> Inr ''appSession''
      | Some s \<Rightarrow> if token s then Inr s else fail ''session.name'')"

definition no_cookie_parameters :: cookie_parameters where
  "no_cookie_parameters =
     \<lparr>p_domain = None, p_transient = None, p_httpOnly = None, p_sameSite = None,
      p_secure = None, p_path = None\<rparr>"

definition validate_cookie ::
  "(uri_mode \<Rightarrow> string \<Rightarrow> bool) \<Rightarrow> cookie_parameters option \<Rightarrow> joi_error + cookie_config" where
  "validate_cookie uri v =
     (let c = default_to no_cookie_parameters v in
      and_then (case p_domain c of
                  None \<Rightarrow> Inr None
                | Some s \<Rightarrow> and_then (string_rule ''session.cookie.domain'' s) (\<lambda>s. Inr (Some s)))
        (\<lambda>domain'.
      and_then (case p_sameSite c of
                  None \<Rightarrow> Inr ''Lax''
                | Some s \<Rightarrow> if s \<in> set [''Lax'', ''Strict'', ''None''] then Inr s
                            else fail ''session.cookie.sameSite'')
        (\<lambda>sameSite'.
      and_then (case p_path c of
                  None \<Rightarrow> Inr None
                | Some s \<Rightarrow> and_then (uri_rule uri RelativeOnly ''session.cookie.path'' s)
                              (\<lambda>s. Inr (Some s)))
        (\<lambda>path'.
      Inr \<lparr>domain = domain', path = path',
           transient = default_to False (p_transient c),
           httpOnly = default_to True (p_httpOnly c),
           secure = p_secure c,
           sameSite = sameSite'\<rparr>))))"

definition no_session_parameters :: session_parameters where
  "no_session_parameters =
     \<lparr>p_rolling = None, p_rollingDuration = None, p_absoluteDuration = None, p_name = None,
      p_cookie = None\<rparr>"

definition validate_session ::
  "(uri_mode \<Rightarrow> string \<Rightarrow> bool) \<Rightarrow> session_parameters option \<Rightarrow> joi_error + session_config" where
  "validate_session uri v =
     (let s = default_to no_session_parameters v;
          rolling' = default_to True (p_rolling s) in
      and_then (validate_rollingDuration rolling' (p_rollingDuration s)) (\<lambda>rollingDuration'.
      and_then (validate_absoluteDuration rolling' (p_absoluteDuration s)) (\<lambda>absoluteDuration'.
      and_then (validate_name (p_name s)) (\<lambda>name'.
      and_then (validate_cookie uri (p_cookie s)) (\<lambda>cookie'.
      Inr \<lparr>name = name', rolling = rolling', rollingDuration = rollingDuration',
           absoluteDuration = absoluteDuration', cookie = cookie'\<rparr>)))))"

text \<open>
  \<open>authorizationParams\<close>: unknown keys are kept. \<open>response_mode\<close> is validated after
  \<open>response_type\<close>: for \<open>code\<close> only \<open>query\<close> is allowed and nothing is defaulted;
  otherwise only \<open>form_post\<close> is allowed, which is also the default.
\<close>

definition validate_response_mode :: "string \<Rightarrow> string option \<Rightarrow> joi_error + string option" where
  "validate_response_mode response_type' v =
     (if response_type' = ''code'' then
        (case v of
           None \<Rightarrow> Inr None
         | Some m \<Rightarrow> if m = ''query'' then Inr (Some m)
                     else fail ''authorizationParams.response_mode'')
      else
        (case v of
           None \<Rightarrow> Inr (Some ''form_post'')
         | Some m \<Rightarrow> if m = ''form_post'' then Inr (Some m)
                     else fail ''authorizationParams.response_mode''))"

definition no_authorization_input :: authorization_input where
  "no_authorization_input =
     \<lparr>p_response_type = None, p_scope = None, p_response_mode = None, p_unknown = []\<rparr>"

definition validate_authorizationParams ::
  "authorization_input option \<Rightarrow> joi_error + authorization_parameters" where
  "validate_authorizationParams v =
     (let a = default_to no_authorization_input v in
      and_then (case p_response_type a of
                  None \<Rightarrow> Inr ''id_token''
                | Some t \<Rightarrow> if t \<in> set [''id_token'', ''code id_token'', ''code''] then Inr t
                            else fail ''authorizationParams.response_type'')
        (\<lambda>response_type'.
      and_then (case p_scope a of
                  None \<Rightarrow> Inr ''openid profile email''
                | Some s \<Rightarrow> and_then (string_rule ''authorizationParams.scope'' s)
                              (\<lambda>s. if contains_openid s then Inr s
                                    else fail ''authorizationParams.scope''))
        (\<lambda>scope'.
      and_then (validate_response_mode response_type' (p_response_mode a)) (\<lambda>response_mode'.
      Inr \<lparr>scope = scope', response_mode = response_mode', response_type = response_type',
           unknown_parameters = p_unknown a\<rparr>))))"

text \<open>
  \<open>idTokenSigningAlg\<close>: the value \<open>none\<close> is refused whatever its letter case; the
  comparison lower-cases the value.
\<close>

definition validate_idTokenSigningAlg :: "string option \<Rightarrow> joi_error + string" where
  "validate_idTokenSigningAlg v =
     (case v of
        None \<Rightarrow> Inr ''RS256''
      | Some s \<Rightarrow> if toLowerCase s = ''none'' then fail ''idTokenSigningAlg''
                  else string_rule ''idTokenSigningAlg'' s)"

text \<open>
  \<open>clientSecret\<close> refers to the validated \<open>authorizationParams.response_type\<close> and
  \<open>idTokenSigningAlg\<close> and is validated after both. Every condition that matches adds
  its requirement; the message of the last one stands.
\<close>

definition validate_clientSecret ::
  "string \<Rightarrow> string \<Rightarrow> string option \<Rightarrow> joi_error + string option" where
  "validate_clientSecret response_type' idTokenSigningAlg' v =
     (case v of
        Some s \<Rightarrow> and_then (string_rule ''clientSecret'' s) (\<lambda>s. Inr (Some s))
      | None \<Rightarrow>
          if startsWith idTokenSigningAlg' ''HS''
          then fail_with ''clientSecret'' clientSecret_hmac_message
          else if str_includes response_type' ''code''
          then fail_with ''clientSecret'' clientSecret_code_message
          else Inr None)"

text \<open>
  \<open>routes\<close>: \<open>login\<close> and \<open>logout\<close> are a relative URI or \<open>false\<close>. The boolean
  alternative reads the strings \<open>true\<close> and \<open>false\<close>, in any letter case, as booleans.
\<close>

definition validate_route ::
  "(uri_mode \<Rightarrow> string \<Rightarrow> bool) \<Rightarrow> string \<Rightarrow> string \<Rightarrow> route option \<Rightarrow> joi_error + route" where
  "validate_route uri k d v =
     (case v of
        None \<Rightarrow> Inr (Route d)
      | Some (Route s) \<Rightarrow>
          if s \<noteq> [] \<and> uri RelativeOnly s then Inr (Route s)
          else if toLowerCase s = ''false'' then Inr (RouteFlag False)
          else fail k
      | Some (RouteFlag b) \<Rightarrow> if b then fail k else Inr (RouteFlag False))"

definition no_routes_parameters :: routes_parameters where
  "no_routes_parameters =
     \<lparr>p_login = None, p_logout = None, p_callback = None, p_postLogoutRedirect = None\<rparr>"

definition validate_routes ::
  "(uri_mode \<Rightarrow> string \<Rightarrow> bool) \<Rightarrow> routes_parameters option \<Rightarrow> joi_error + routes_config" where
  "validate_routes uri v =
     (let r = default_to no_routes_parameters v in
      and_then (validate_route uri ''routes.login'' ''/login'' (p_login r)) (\<lambda>login'.
      and_then (validate_route uri ''routes.logout'' ''/logout'' (p_logout r)) (\<lambda>logout'.
      and_then (case p_callback r of
                  None \<Rightarrow> Inr ''/callback''
                | Some s \<Rightarrow> uri_rule uri RelativeOnly ''routes.callback'' s)
        (\<lambda>callback'.
      and_then (case p_postLogoutRedirect r of
                  None \<Rightarrow> Inr []
                | Some s \<Rightarrow> uri_rule uri AllowRelative ''routes.postLogoutRedirect'' s)
        (\<lambda>postLogoutRedirect'.
      Inr \<lparr>login = login', logout = logout', postLogoutRedirect = postLogoutRedirect',
           callback = callback'\<rparr>)))))"

definition required_string :: "string \<Rightarrow> string option \<Rightarrow> joi_error + string" where
  "required_string k v = (case v of None \<Rightarrow> fail k | Some s \<Rightarrow> string_rule k s)"

definition required_uri ::
  "(uri_mode \<Rightarrow> string \<Rightarrow> bool) \<Rightarrow> string \<Rightarrow> string option \<Rightarrow> joi_error + string" where
  "required_uri uri k v = (case v of None \<Rightarrow> fail k | Some s \<Rightarrow> uri_rule uri Absolute k s)"

definition default_identityClaimFilter :: "string list" where
  "default_identityClaimFilter =
     [''aud'', ''iss'', ''iat'', ''exp'', ''nbf'', ''nonce'', ''azp'', ''auth_time'', ''s_hash'',
      ''at_hash'', ''c_hash'']"

subsection \<open>paramsSchema and get\<close>

text \<open>
  The keys are validated in the order of the schema, a key that refers to other keys after
  them: \<open>clientSecret\<close> comes right after \<open>idTokenSigningAlg\<close>. The first error ends
  the validation. \<open>defaultState\<close> is the login-state hook of the repository, the default of
  \<open>getLoginState\<close>.
\<close>

definition paramsSchema_validate ::
  "(uri_mode \<Rightarrow> string \<Rightarrow> bool) \<Rightarrow> 'f \<Rightarrow> 'f config_parameters \<Rightarrow> joi_error + 'f config" where
  "paramsSchema_validate uri defaultState p =
     and_then (validate_secret (p_secret p)) (\<lambda>secret'.
     and_then (validate_session uri (p_session p)) (\<lambda>session'.
     and_then (validate_authorizationParams (p_authorizationParams p)) (\<lambda>authorizationParams'.
     and_then (required_uri uri ''baseURL'' (p_baseURL p)) (\<lambda>baseURL'.
     and_then (required_string ''clientID'' (p_clientID p)) (\<lambda>clientID'.
     and_then (case p_clockTolerance p of None \<Rightarrow> Inr 60 | Some r \<Rightarrow> number_rule ''clockTolerance'' r)
       (\<lambda>clockTolerance'.
     and_then (validate_idTokenSigningAlg (p_idTokenSigningAlg p)) (\<lambda>idTokenSigningAlg'.
     and_then (validate_clientSecret (response_type authorizationParams') idTokenSigningAlg'
                 (p_clientSecret p))
       (\<lambda>clientSecret'.
     and_then (required_uri uri ''issuerBaseURL'' (p_issuerBaseURL p)) (\<lambda>issuerBaseURL'.
     and_then (validate_routes uri (p_routes p)) (\<lambda>routes'.
     Inr \<lparr>secret = secret',
          session = session',
          auth0Logout = default_to False (p_auth0Logout p),
          authorizationParams = authorizationParams',
          baseURL = baseURL',
          clientID = clientID',
          clientSecret = clientSecret',
          clockTolerance = clockTolerance',
          enableTelemetry = default_to True (p_enableTelemetry p),
          errorOnRequiredAuth = default_to False (p_errorOnRequiredAuth p),
          attemptSilentLogin = default_to False (p_attemptSilentLogin p),
          getLoginState = default_to defaultState (p_getLoginState p),
          identityClaimFilter = default_to default_identityClaimFilter (p_identityClaimFilter p),
          idpLogout = default_to (default_to False (p_auth0Logout p)) (p_idpLogout p),
          idTokenSigningAlg = idTokenSigningAlg',
          issuerBaseURL = issuerBaseURL',
          legacySameSiteCookie = default_to True (p_legacySameSiteCookie p),
          authRequired = default_to True (p_authRequired p),
          routes = routes'\<rparr>))))))))))"

text \<open>
  \<open>get\<close> fills the five keys the environment can supply where the parameters have no
  such key, validates, and raises a \<open>TypeError\<close> with the message of the first error.
  Absent parameters are the empty object.
\<close>

record env =
  SECRET :: "string option"
  ISSUER_BASE_URL :: "string option"
  BASE_URL :: "string option"
  CLIENT_ID :: "string option"
  CLIENT_SECRET :: "string option"

definition no_parameters :: "'f config_parameters" where
  "no_parameters =
     \<lparr>p_secret = None, p_session = None, p_auth0Logout = None, p_authorizationParams = None,
      p_baseURL = None, p_clientID = None, p_clientSecret = None, p_clockTolerance = None,
      p_enableTelemetry = None, p_errorOnRequiredAuth = None, p_attemptSilentLogin = None,
      p_getLoginState = None, p_identityClaimFilter = None, p_idpLogout = None,
      p_idTokenSigningAlg = None, p_issuerBaseURL = None, p_legacySameSiteCookie = None,
      p_authRequired = None, p_routes = None\<rparr>"

definition or_env :: "'a option \<Rightarrow> 'a option \<Rightarrow> 'a option" where
  "or_env v e = (case v of None \<Rightarrow> e | Some x \<Rightarrow> Some x)"

definition with_env :: "env \<Rightarrow> 'f config_parameters \<Rightarrow> 'f config_parameters" where
  "with_env e p =
     p\<lparr>p_secret := or_env (p_secret p) (map_option SecretString (SECRET e)),
       p_issuerBaseURL := or_env (p_issuerBaseURL p) (ISSUER_BASE_URL e),
       p_baseURL := or_env (p_baseURL p) (BASE_URL e),
       p_clientID := or_env (p_clientID p) (CLIENT_ID e),
       p_clientSecret := or_env (p_clientSecret p) (CLIENT_SECRET e)\<rparr>"

definition get ::
  "(uri_mode \<Rightarrow> string \<Rightarrow> bool) \<Rightarrow> 'f \<Rightarrow> env \<Rightarrow> 'f config_parameters option \<Rightarrow> exn + 'f config" where
  "get uri defaultState e params =
     (case paramsSchema_validate uri defaultState (with_env e (default_to no_parameters params)) of
        Inl err \<Rightarrow> Inl (TypeError err)
      | Inr v \<Rightarrow> Inr v)"

subsection \<open>Reading the parameters as the schema does\<close>

text \<open>
  An absent \<open>session\<close>, \<open>session.cookie\<close>, \<open>authorizationParams\<close> or \<open>routes\<close> is
  validated as the empty object. \<open>with_absoluteDuration\<close> and \<open>with_response_mode\<close> set
  one nested key. \<open>needs_clientSecret\<close> is the condition of the schema on the
  parameters: the response type (\<open>id_token\<close> when omitted) includes \<open>code\<close>, or the
  signing algorithm (\<open>RS256\<close> when omitted) starts with \<open>HS\<close>.
\<close>

definition session_parameters_of :: "'f config_parameters \<Rightarrow> session_parameters" where
  "session_parameters_of p = default_to no_session_parameters (p_session p)"

definition cookie_parameters_of :: "'f config_parameters \<Rightarrow> cookie_parameters" where
  "cookie_parameters_of p = default_to no_cookie_parameters (p_cookie (session_parameters_of p))"

definition authorization_input_of :: "'f config_parameters \<Rightarrow> authorization_input" where
  "authorization_input_of p = default_to no_authorization_input (p_authorizationParams p)"

definition routes_parameters_of :: "'f config_parameters \<Rightarrow> routes_parameters" where
  "routes_parameters_of p = default_to no_routes_parameters (p_routes p)"

definition with_absoluteDuration ::
  "duration option \<Rightarrow> 'f config_parameters \<Rightarrow> 'f config_parameters" where
  "with_absoluteDuration v p =
     p\<lparr>p_session := Some ((session_parameters_of p)\<lparr>p_absoluteDuration := v\<rparr>)\<rparr>"

definition with_response_mode :: "string option \<Rightarrow> 'f config_parameters \<Rightarrow> 'f config_parameters" where
  "with_response_mode v p =
     p\<lparr>p_authorizationParams := Some ((authorization_input_of p)\<lparr>p_response_mode := v\<rparr>)\<rparr>"

definition needs_clientSecret :: "'f config_parameters \<Rightarrow> bool" where
  "needs_clientSecret p =
     (str_includes (default_to ''id_token'' (p_response_type (authorization_input_of p))) ''code''
      \<or> startsWith (default_to ''RS256'' (p_idTokenSigningAlg p)) ''HS'')"

subsection \<open>Instances for the concrete runs\<close>

text \<open>
  A recogniser that stands for the library's URI check in the concrete runs: an absolute
  URI is a scheme, a colon and URI characters; a relative reference is made of URI
  characters and has no colon in its first segment. The theorems hold for every check.
\<close>

definition uri_char :: "char \<Rightarrow> bool" where
  "uri_char c =
     (c \<in> set (''ABCDEFGHIJKLMNOPQRSTUVWXYZabcdefghijklmnopqrstuvwxyz0123456789''
               @ ''-._~:/?#[]@!$&()*+,;=%'' @ [CHR 0x27]))"

definition scheme_char :: "char \<Rightarrow> bool" where
  "scheme_char c =
     (c \<in> set (''ABCDEFGHIJKLMNOPQRSTUVWXYZabcdefghijklmnopqrstuvwxyz0123456789'' @ ''+-.''))"

definition simple_uri :: "uri_mode \<Rightarrow> string \<Rightarrow> bool" where
  "simple_uri mode s =
     (let scheme = takeWhile (\<lambda>c. c \<noteq> CHR '':'') s;
          absolute = (scheme \<noteq> [] \<and> length scheme < length s \<and> list_all scheme_char scheme
                      \<and> list_all uri_char s);
          relative = (list_all uri_char s \<and> CHR '':'' \<notin> set (takeWhile (\<lambda>c. c \<noteq> CHR ''/'') s))
      in case mode of
           Absolute \<Rightarrow> absolute
         | RelativeOnly \<Rightarrow> relative
         | AllowRelative \<Rightarrow> absolute \<or> relative)"

text \<open>
  The parameters that give only the four required keys, the configuration they validate
  to, and variations of the parameters.
\<close>

definition required_parameters :: "unit config_parameters" where
  "required_parameters =
     no_parameters
       \<lparr>p_secret := Some (SecretString ''a long, randomly-generated string''),
        p_baseURL := Some ''https://app.example.com'',
        p_clientID := Some ''my_client_id'',
        p_issuerBaseURL := Some ''https://issuer.example.com''\<rparr>"

definition default_config :: "unit config" where
  "default_config =
     \<lparr>secret = SingleKey (KeyString ''a long, randomly-generated string''),
      session =
        \<lparr>name = ''appSession'', rolling = True, rollingDuration = Seconds 86400,
         absoluteDuration = Seconds 604800,
         cookie =
           \<lparr>domain = None, path = None, transient = False, httpOnly = True, secure = None,
            sameSite = ''Lax''\<rparr>\<rparr>,
      auth0Logout = False,
      authorizationParams =
        \<lparr>scope = ''openid profile email'', response_mode = Some ''form_post'',
         response_type = ''id_token'', unknown_parameters = []\<rparr>,
      baseURL = ''https://app.example.com'',
      clientID = ''my_client_id'',
      clientSecret = None,
      clockTolerance = 60,
      enableTelemetry = True,
      errorOnRequiredAuth = False,
      attemptSilentLogin = False,
      getLoginState = (),
      identityClaimFilter =
        [''aud'', ''iss'', ''iat'', ''exp'', ''nbf'', ''nonce'', ''azp'', ''auth_time'', ''s_hash'',
         ''at_hash'', ''c_hash''],
      idpLogout = False,
      idTokenSigningAlg = ''RS256'',
      issuerBaseURL = ''https://issuer.example.com'',
      legacySameSiteCookie = True,
      authRequired = True,
      routes =
        \<lparr>login = Route ''/login'', logout = Route ''/logout'', postLogoutRedirect = [],
         callback = ''/callback''\<rparr>\<rparr>"

definition code_flow_parameters :: "unit config_parameters" where
  "code_flow_parameters =
     required_parameters
       \<lparr>p_authorizationParams :=
          Some (no_authorization_input\<lparr>p_response_type := Some ''code''\<rparr>),
        p_clientSecret := Some ''my_client_secret''\<rparr>"

definition code_flow_without_secrets :: "unit config_parameters" where
  "code_flow_without_secrets = code_flow_parameters\<lparr>p_secret := None, p_clientSecret := None\<rparr>"

definition no_env :: env where
  "no_env =
     \<lparr>SECRET = None, ISSUER_BASE_URL = None, BASE_URL = None, CLIENT_ID = None,
      CLIENT_SECRET = None\<rparr>"

definition absolute_session_parameters :: "unit config_parameters" where
  "absolute_session_parameters =
     required_parameters\<lparr>p_session := Some (no_session_parameters\<lparr>p_rolling := Some False\<rparr>)\<rparr>"

section \<open>Properties of the Node response abstraction\<close>

subsection \<open>setCookie\<close>


lemma toLowerCase_Location: "toLowerCase ''Location'' = ''location''"
  by (simp add: toLowerCase_def toLowerChar_def)


lemma header_name_ok_Location: "header_name_ok ''Location''"
  by (simp add: header_name_ok_def header_name_char_def)

lemma map_of_put: "map_of (put k v t) k' = (if k' = k then Some v else map_of t k')"
  by (induction t) auto









subsection \<open>redirect\<close>


text \<open>What \<open>redirect\<close> does on a response that is not ended when no operation throws.\<close>

lemma redirect_writes:
  assumes "\<not> writableEnded res"
    and "sent_head res = None"
    and "100 \<le> status_or_302 st" and "status_or_302 st \<le> 999"
    and "list_all header_char_ok (statusMessage res)"
    and "header_value_ok (or_else (getHeader res ''Location'') (HString location))"
  shows "\<exists>r. redirect htmlSafe res location st = Inr r
     \<and> statusCode r = status_or_302 st
     \<and> sent_status r = Some (status_or_302 st)
     \<and> sent_field r ''Location'' = Some (or_else (getHeader res ''Location'') (HString location))
     \<and> (outHeaders res \<noteq> None \<longrightarrow>
          getHeader r ''Location'' = Some (or_else (getHeader res ''Location'') (HString location)))
     \<and> written r = (if hasBody res \<and> \<not> bodyless (status_or_302 st)
                    then written res @ htmlSafe location else written res)
     \<and> writableEnded r"
proof (cases "outHeaders res")
  case None
  then show ?thesis
    using assms
    by (simp add: redirect_def writeHead_def end_response_def render_head_def status_or_302_def
        header_name_ok_Location toLowerCase_Location sent_field_def sent_status_def Let_def
        del: header_value_ok.simps)
next
  case (Some t)
  then show ?thesis
    using assms
    by (simp add: redirect_def writeHead_def end_response_def render_head_def status_or_302_def
        setHeader_def header_name_ok_Location toLowerCase_Location sent_field_def sent_status_def
        getHeader_def table_def map_of_put Let_def
        del: header_value_ok.simps)
qed





text \<open>
  A Location header that is set to the empty string is falsy in
  \<open>getHeader('Location') || location\<close>: the argument is sent, not the header that was
  there.
\<close>

theorem redirect_empty_Location_counterexample:
  "setHeader fresh_response ''Location'' (HString []) = Inr empty_location_response
   \<and> getHeader empty_location_response ''Location'' = Some (HString [])
   \<and> \<not> isl (redirect html_escape empty_location_response ''/next'' None)
   \<and> sent_field (projr (redirect html_escape empty_location_response ''/next'' None)) ''Location''
       = Some (HString ''/next'')"
  by (simp add: redirect_def writeHead_def end_response_def render_head_def setHeader_def
      getHeader_def table_def sent_field_def toLowerCase_Location header_name_ok_Location
      fresh_response_def empty_location_response_def header_char_ok_def)

text \<open>
  C10 (amended). If a Location header with a truthy value (a non-empty string, or an
  array) of valid header characters has already been set on a response that is not ended
  and whose head has not been sent, and the status (302 when none is given) is between 100
  and 999 and the status message has valid header characters, then \<open>redirect\<close> returns and
  sends that value as the Location, not its argument; the header table keeps that value;
  and the body is still the escaped argument (nothing when the response has no body or
  the status is 204, 304 or below 200).
\<close>

theorem redirect_keeps_Location:
  assumes "\<not> writableEnded res"
    and "sent_head res = None"
    and "100 \<le> status_or_302 st" and "status_or_302 st \<le> 999"
    and "list_all header_char_ok (statusMessage res)"
    and "getHeader res ''Location'' = Some v"
    and "truthy v"
    and "header_value_ok v"
  shows "\<exists>r. redirect htmlSafe res location st = Inr r
     \<and> sent_field r ''Location'' = Some v
     \<and> getHeader r ''Location'' = Some v
     \<and> written r = (if hasBody res \<and> \<not> bodyless (status_or_302 st)
                    then written res @ htmlSafe location else written res)"
proof -
  have v: "or_else (getHeader res ''Location'') (HString location) = v"
    using assms(6,7) by simp
  have t: "outHeaders res \<noteq> None"
    using assms(6) by (cases "outHeaders res") (simp_all add: getHeader_def table_def)
  show ?thesis
    using redirect_writes [OF assms(1-5), of location htmlSafe] assms(8) t
    unfolding v by auto
qed

theorem redirect_keeps_Location_witness:
  "\<exists>r. redirect html_escape first_location_response ''/second?x=<y>'' None = Inr r
     \<and> sent_field r ''Location'' = Some (HString ''/first'')
     \<and> getHeader r ''Location'' = Some (HString ''/first'')
     \<and> written r = ''/second?x=&lt;y&gt;''"
proof -
  have h: "\<not> writableEnded first_location_response"
      "sent_head first_location_response = None"
      "100 \<le> status_or_302 None" "status_or_302 None \<le> 999"
      "list_all header_char_ok (statusMessage first_location_response)"
      "getHeader first_location_response ''Location'' = Some (HString ''/first'')"
      "truthy (HString ''/first'')"
      "header_value_ok (HString ''/first'')"
    by (simp_all add: first_location_response_def fresh_response_def status_or_302_def
        getHeader_def table_def toLowerCase_Location header_char_ok_def)
  have body: "hasBody first_location_response" "\<not> bodyless (status_or_302 None)"
      "written first_location_response = []"
    by (simp_all add: first_location_response_def fresh_response_def status_or_302_def bodyless_def)
  show ?thesis
    using redirect_keeps_Location [OF h, of html_escape "''/second?x=<y>''"] body
    by simp
qed

section \<open>Properties of the Auth-Required Gate\<close>

lemma split_not_Nil: "sep \<noteq> [] \<Longrightarrow> split s sep \<noteq> []"
  by (induction s sep rule: split.induct) (auto split: list.splits)

lemma join_Cons: "ys \<noteq> [] \<Longrightarrow> join sep (x # ys) = x @ sep @ join sep ys"
  by (cases ys) auto

lemma join_split: "sep \<noteq> [] \<Longrightarrow> join sep (split s sep) = s"
proof (induction s sep rule: split.induct)
  case (1 sep)
  then show ?case by simp
next
  case (2 c cs sep)
  show ?case
  proof (cases "prefix sep (c # cs)")
    case True
    let ?r = "drop (length sep) (c # cs)"
    have whole: "sep @ ?r = c # cs"
      using True by (auto simp: prefix_def)
    have "split (c # cs) sep = [] # split ?r sep"
      using True 2(3) by simp
    moreover have "join sep ([] # split ?r sep) = sep @ join sep (split ?r sep)"
      using split_not_Nil [OF 2(3), of ?r] by (simp add: join_Cons)
    moreover have "join sep (split ?r sep) = ?r"
      using 2(1) [OF 2(3) True 2(3)] .
    ultimately show ?thesis using whole by simp
  next
    case False
    obtain w ws where w: "split cs sep = w # ws"
      using split_not_Nil [OF 2(3), of cs] by (cases "split cs sep") auto
    have "join sep ((c # w) # ws) = c # join sep (w # ws)"
      by (cases ws) auto
    then show ?thesis using 2 False w by simp
  qed
qed

lemma join_append:
  "xs \<noteq> [] \<Longrightarrow> ys \<noteq> [] \<Longrightarrow> join sep (xs @ ys) = join sep xs @ sep @ join sep ys"
  by (induction sep xs rule: join.induct) (auto simp: join_Cons)

lemma toLowerCase_set_cookie: "toLowerCase ''set-cookie'' = ''set-cookie''"
  by (simp add: toLowerCase_def toLowerChar_def)

lemma toLowerCase_x_middleware_next: "toLowerCase ''x-middleware-next'' = ''x-middleware-next''"
  by (simp add: toLowerCase_def toLowerChar_def)

lemma toLowerCase_location: "toLowerCase ''location'' = ''location''"
  by (simp add: toLowerCase_def toLowerChar_def)

lemma headers_values_set:
  "headers_values (headers_set hs k v) k' =
     (if toLowerCase k' = toLowerCase k then [v] else headers_values hs k')"
  by (induction hs) (auto simp: headers_values_def headers_set_def)

lemma headers_get_set_cookie_next:
  "headers_get (headers (NextResponse_next (Some (st, hs)))) ''set-cookie'' = headers_get hs ''set-cookie''"
  by (simp add: NextResponse_next_def headers_get_def headers_values_set
      toLowerCase_set_cookie toLowerCase_x_middleware_next)

text \<open>The merged value of the two cookie lists, as the gate computes it.\<close>

lemma merged_cookies:
  "join '', '' ((case headers_get ha ''set-cookie'' of None \<Rightarrow> [] | Some v \<Rightarrow> split v '', '')
      @ (case headers_get hb ''set-cookie'' of None \<Rightarrow> [] | Some v \<Rightarrow> split v '', ''))
   = join '', '' (headers_values ha ''set-cookie'' @ headers_values hb ''set-cookie'')"
proof -
  have sep: "'', '' \<noteq> []" by simp
  show ?thesis
  proof (cases "headers_values ha ''set-cookie'' = []")
    case a: True
    show ?thesis
    proof (cases "headers_values hb ''set-cookie'' = []")
      case True
      with a show ?thesis by (simp add: headers_get_def)
    next
      case False
      with a show ?thesis by (simp add: headers_get_def join_split)
    qed
  next
    case a: False
    show ?thesis
    proof (cases "headers_values hb ''set-cookie'' = []")
      case True
      with a show ?thesis by (simp add: headers_get_def join_split)
    next
      case False
      with a show ?thesis
        using split_not_Nil [OF sep]
        by (simp add: headers_get_def join_append join_split del: split.simps)
    qed
  qed
qed

text \<open>
  C2. When the session has a user and the downstream middleware returns a response, the
  gate returns a response with the status of that response whose \<open>set-cookie\<close> header
  reads as the cookies written during session resolution followed by the cookies of the
  downstream response, in that order; the header is absent only when neither wrote one.
\<close>

theorem gate_merges_cookies:
  assumes "\<not> list_ex (\<lambda>p. startsWith (pathname req) p) (ignorePaths login_route callback_route)"
    and "sessionCache_get req (NextResponse_next None) = (s, authRes)"
    and "\<not> no_user s"
    and "middleware = Some m"
    and "m req ev w = (Some res, w')"
  shows "\<exists>final.
     wrappedMiddleware new_URL login_route callback_route sessionCache_get middleware req ev w = (Some final, w')
     \<and> status final = status res
     \<and> headers_get (headers final) ''set-cookie'' =
         (if headers_values (headers authRes) ''set-cookie'' @ headers_values (headers res) ''set-cookie'' = []
          then None
          else Some (join '', '' (headers_values (headers authRes) ''set-cookie''
                                  @ headers_values (headers res) ''set-cookie'')))"
proof -
  let ?A = "headers_values (headers authRes) ''set-cookie''"
  let ?B = "headers_values (headers res) ''set-cookie''"
  let ?cookies = "case headers_get (headers res) ''set-cookie'' of None \<Rightarrow> [] | Some v \<Rightarrow> split v '', ''"
  let ?authCookies = "case headers_get (headers authRes) ''set-cookie'' of None \<Rightarrow> [] | Some v \<Rightarrow> split v '', ''"
  let ?hs = "if ?cookies \<noteq> [] \<or> ?authCookies \<noteq> []
             then headers_set (headers res) ''set-cookie'' (join '', '' (?authCookies @ ?cookies))
             else headers res"
  have sep: "'', '' \<noteq> []" by simp
  have run: "wrappedMiddleware new_URL login_route callback_route sessionCache_get middleware req ev w
      = (Some (NextResponse_next (Some (status res, ?hs))), w')"
    using assms by (simp add: wrappedMiddleware_def Let_def del: split.simps)
  have empty_c: "?cookies = [] \<longleftrightarrow> ?B = []"
    using split_not_Nil [OF sep] by (simp add: headers_get_def del: split.simps)
  have empty_a: "?authCookies = [] \<longleftrightarrow> ?A = []"
    using split_not_Nil [OF sep] by (simp add: headers_get_def del: split.simps)
  have "headers_get ?hs ''set-cookie'' = (if ?A @ ?B = [] then None else Some (join '', '' (?A @ ?B)))"
  proof (cases "?A @ ?B = []")
    case True
    then have "?hs = headers res" using empty_c empty_a by simp
    then show ?thesis using True by (simp add: headers_get_def)
  next
    case False
    then have "?hs = headers_set (headers res) ''set-cookie'' (join '', '' (?authCookies @ ?cookies))"
      using empty_c empty_a by auto
    then have "headers_get ?hs ''set-cookie'' = Some (join '', '' (?authCookies @ ?cookies))"
      by (simp add: headers_get_def headers_values_set del: split.simps)
    then show ?thesis using False merged_cookies [of "headers authRes" "headers res"] by simp
  qed
  then show ?thesis
    using run by (simp add: headers_get_set_cookie_next del: split.simps) (simp add: NextResponse_next_def)
qed


lemma encode_private: "encodeURIComponent ''/private'' = ''%2Fprivate''"
  by (simp add: encodeURIComponent_def encodeChar_def uriUnreserved_def percent_def hexDigit_def
      utf8_def)

lemma private_not_ignored:
  "\<not> list_ex (\<lambda>p. startsWith (pathname (request_to ''/private'')) p) (ignorePaths ''/login'' ''/callback'')"
  by (simp add: request_to_def ignorePaths_def startsWith_def)

lemma api_private_not_ignored:
  "\<not> list_ex (\<lambda>p. startsWith (pathname (request_to ''/api/private'')) p) (ignorePaths ''/login'' ''/callback'')"
  by (simp add: request_to_def ignorePaths_def startsWith_def)

theorem gate_merges_cookies_witness:
  "\<exists>final.
     wrappedMiddleware origin_relative ''/login'' ''/callback'' renewing_cache
        (Some counting_middleware) (request_to ''/private'') () 0 = (Some final, 1)
     \<and> status final = 200
     \<and> headers_get (headers final) ''set-cookie'' = Some ''appSession=renewed, hl=en''"
proof -
  let ?authRes = "(NextResponse_next None)\<lparr>headers := headers (NextResponse_next None)
                     @ [(''set-cookie'', ''appSession=renewed'')]\<rparr>"
  let ?res = "\<lparr>status = 200, headers = [(''set-cookie'', ''hl=en'')], body = NoBody\<rparr>"
  have cache: "renewing_cache (request_to ''/private'') (NextResponse_next None)
      = (Some \<lparr>user = Some ()\<rparr>, ?authRes)"
    by (simp add: renewing_cache_def)
  have user: "\<not> no_user (Some \<lparr>user = Some ()\<rparr>)"
    by (simp add: no_user_def)
  have run: "counting_middleware (request_to ''/private'') () 0 = (Some ?res, 1)"
    by (simp add: counting_middleware_def)
  have a: "headers_values (headers ?authRes) ''set-cookie'' = [''appSession=renewed'']"
    by (simp add: headers_values_def NextResponse_next_def toLowerCase_set_cookie)
  have b: "headers_values (headers ?res) ''set-cookie'' = [''hl=en'']"
    by (simp add: headers_values_def toLowerCase_set_cookie)
  have "\<exists>final.
     wrappedMiddleware origin_relative ''/login'' ''/callback'' renewing_cache
        (Some counting_middleware) (request_to ''/private'') () 0 = (Some final, 1)
     \<and> status final = status ?res
     \<and> headers_get (headers final) ''set-cookie'' =
         (if headers_values (headers ?authRes) ''set-cookie'' @ headers_values (headers ?res) ''set-cookie'' = []
          then None
          else Some (join '', '' (headers_values (headers ?authRes) ''set-cookie''
                                  @ headers_values (headers ?res) ''set-cookie'')))"
    by (rule gate_merges_cookies [where sessionCache_get = renewing_cache
          and m = counting_middleware, OF private_not_ignored cache user refl run])
  then show ?thesis
    unfolding a b by simp
qed

text \<open>
  The redirect of an unauthenticated page request is built by \<open>NextResponse.redirect\<close>
  without a status, which answers 307 and not 302.
\<close>

theorem gate_redirect_status_counterexample:
  "map_option status
     (fst (wrappedMiddleware origin_relative ''/login'' ''/callback'' anonymous_cache
             (Some counting_middleware) (request_to ''/private'') () 0)) = Some 307
   \<and> map_option status
     (fst (wrappedMiddleware origin_relative ''/login'' ''/callback'' anonymous_cache
             (Some counting_middleware) (request_to ''/private'') () 0)) \<noteq> Some 302"
  by (simp add: wrappedMiddleware_def request_to_def ignorePaths_def startsWith_def
      anonymous_cache_def no_user_def NextResponse_redirect_def)

text \<open>
  C1 (amended). For a request whose path starts with no exempt prefix and for which the
  session cache yields no session with a user, the gate does not invoke the downstream
  middleware (the result is the same for every middleware and the middleware's state is
  unchanged). A path that starts with \<open>/api\<close> gets status 401 with the JSON body
  \<open>not_authenticated\<close>; every other path gets a 307 redirect to the login route with the
  query parameter \<open>returnTo\<close> carrying the URL-encoded path and query string.
\<close>

theorem gate_unauthenticated:
  assumes "\<not> list_ex (\<lambda>p. startsWith (pathname req) p) (ignorePaths login_route callback_route)"
    and "no_user (fst (sessionCache_get req (NextResponse_next None)))"
  shows "\<exists>r.
     wrappedMiddleware new_URL login_route callback_route sessionCache_get middleware req ev w = (Some r, w)
     \<and> (if startsWith (pathname req) ''/api''
        then status r = 401 \<and> body r = JsonBody not_authenticated
        else status r = 307
           \<and> headers_get (headers r) ''location'' =
               Some (new_URL (login_route @ ''?returnTo='' @ encodeURIComponent (pathname req @ search req))
                       (origin req)))"
  using assms
  by (cases "sessionCache_get req (NextResponse_next None)")
     (simp add: wrappedMiddleware_def NextResponse_json_def NextResponse_redirect_def
        headers_get_def headers_values_def toLowerCase_location)

theorem gate_unauthenticated_witness:
  "wrappedMiddleware origin_relative ''/login'' ''/callback'' anonymous_cache
      (Some counting_middleware) (request_to ''/private'') () 0
     = (Some (NextResponse_redirect ''http://example.com/login?returnTo=%2Fprivate''), 0)
   \<and> (\<exists>r. wrappedMiddleware origin_relative ''/login'' ''/callback'' anonymous_cache
            (Some counting_middleware) (request_to ''/api/private'') () 0 = (Some r, 0)
          \<and> status r = 401 \<and> body r = JsonBody not_authenticated)"
proof -
  have anon: "\<And>req. no_user (fst (anonymous_cache req (NextResponse_next None)))"
    by (simp add: anonymous_cache_def no_user_def)
  have page: "\<not> startsWith (pathname (request_to ''/private'')) ''/api''"
    by (simp add: request_to_def startsWith_def)
  have api: "startsWith (pathname (request_to ''/api/private'')) ''/api''"
    by (simp add: request_to_def startsWith_def)
  obtain r where r: "wrappedMiddleware origin_relative ''/login'' ''/callback'' anonymous_cache
        (Some counting_middleware) (request_to ''/private'') () 0 = (Some r, 0)"
      and "status r = 307"
      and "headers_get (headers r) ''location'' = Some ''http://example.com/login?returnTo=%2Fprivate''"
    using gate_unauthenticated [where req = "request_to ''/private''" and login_route = "''/login''"
        and callback_route = "''/callback''" and sessionCache_get = anonymous_cache
        and middleware = "Some counting_middleware" and ev = "()" and w = 0
        and new_URL = origin_relative]
      private_not_ignored anon page
    by (auto simp: encode_private origin_relative_def request_to_def)
  have "r = NextResponse_redirect ''http://example.com/login?returnTo=%2Fprivate''"
    using r
    by (simp add: wrappedMiddleware_def request_to_def ignorePaths_def startsWith_def
        anonymous_cache_def no_user_def encode_private origin_relative_def)
  then show ?thesis
    using r gate_unauthenticated [where req = "request_to ''/api/private''" and login_route = "''/login''"
        and callback_route = "''/callback''" and sessionCache_get = anonymous_cache
        and middleware = "Some counting_middleware" and ev = "()" and w = 0
        and new_URL = origin_relative]
      api_private_not_ignored anon api
    by simp
qed

section \<open>Properties of the configuration validator\<close>

lemma and_then_Inr: "and_then m f = Inr y \<longleftrightarrow> (\<exists>x. m = Inr x \<and> f x = Inr y)"
  by (cases m) (simp_all add: and_then_def)

lemma and_then_Inr_simp [simp]: "and_then (Inr x) f = f x"
  by (simp add: and_then_def)

lemma and_then_Inl_simp [simp]: "and_then (Inl e) f = Inl e"
  by (simp add: and_then_def)

lemma fail_not_Inr [simp]: "fail k \<noteq> Inr x" "fail_with k msg \<noteq> Inr x"
  by (simp_all add: fail_def fail_with_def)

lemma paramsSchema_validate_Inr:
  assumes "paramsSchema_validate uri d p = Inr cfg"
  shows "validate_session uri (p_session p) = Inr (session cfg)"
    and "validate_authorizationParams (p_authorizationParams p) = Inr (authorizationParams cfg)"
    and "validate_idTokenSigningAlg (p_idTokenSigningAlg p) = Inr (idTokenSigningAlg cfg)"
    and "validate_clientSecret (response_type (authorizationParams cfg)) (idTokenSigningAlg cfg)
           (p_clientSecret p) = Inr (clientSecret cfg)"
    and "validate_routes uri (p_routes p) = Inr (routes cfg)"
    and "(case p_clockTolerance p of None \<Rightarrow> Inr 60 | Some r \<Rightarrow> number_rule ''clockTolerance'' r)
           = Inr (clockTolerance cfg)"
    and "identityClaimFilter cfg = default_to default_identityClaimFilter (p_identityClaimFilter p)"
    and "validate_secret (p_secret p) = Inr (secret cfg)"
  using assms unfolding paramsSchema_validate_def
  by (auto simp: and_then_Inr)


lemma validate_session_Inr:
  assumes "validate_session uri v = Inr ss"
  shows "rolling ss = default_to True (p_rolling (default_to no_session_parameters v))"
    and "validate_rollingDuration (rolling ss) (p_rollingDuration (default_to no_session_parameters v))
           = Inr (rollingDuration ss)"
    and "validate_absoluteDuration (rolling ss) (p_absoluteDuration (default_to no_session_parameters v))
           = Inr (absoluteDuration ss)"
    and "validate_cookie uri (p_cookie (default_to no_session_parameters v)) = Inr (cookie ss)"
  using assms unfolding validate_session_def
  by (auto simp: and_then_Inr Let_def)

lemma validate_cookie_Inr:
  assumes "validate_cookie uri v = Inr c"
  shows "httpOnly c = default_to True (p_httpOnly (default_to no_cookie_parameters v))"
    and "p_sameSite (default_to no_cookie_parameters v) = None \<Longrightarrow> sameSite c = ''Lax''"
  using assms unfolding validate_cookie_def
  by (auto simp: and_then_Inr Let_def)

lemma validate_route_None: "validate_route uri k d None = Inr (Route d)"
  by (simp add: validate_route_def)

lemma validate_routes_Inr:
  assumes "validate_routes uri v = Inr r"
  shows "validate_route uri ''routes.login'' ''/login'' (p_login (default_to no_routes_parameters v))
           = Inr (login r)"
    and "validate_route uri ''routes.logout'' ''/logout'' (p_logout (default_to no_routes_parameters v))
           = Inr (logout r)"
    and "p_callback (default_to no_routes_parameters v) = None \<Longrightarrow> callback r = ''/callback''"
  using assms unfolding validate_routes_def
  by (auto simp: and_then_Inr Let_def)

lemma validate_authorizationParams_Inr:
  assumes "validate_authorizationParams v = Inr ap"
  shows "response_type ap = default_to ''id_token'' (p_response_type (default_to no_authorization_input v))"
    and "response_type ap \<in> {''id_token'', ''code id_token'', ''code''}"
    and "validate_response_mode (response_type ap) (p_response_mode (default_to no_authorization_input v))
           = Inr (response_mode ap)"
  using assms unfolding validate_authorizationParams_def
  by (auto simp: and_then_Inr Let_def default_to_def split: option.splits if_splits)

lemma toLowerCase_RS256: "toLowerCase ''RS256'' \<noteq> ''none''"
  by (simp add: toLowerCase_def toLowerChar_def)

lemma validate_idTokenSigningAlg_Inr:
  assumes "validate_idTokenSigningAlg v = Inr alg"
  shows "alg = default_to ''RS256'' v" and "toLowerCase alg \<noteq> ''none''"
  using assms unfolding validate_idTokenSigningAlg_def
  by (auto simp: default_to_def string_rule_def fail_def toLowerCase_RS256 split: option.splits if_splits)

text \<open>
  C5. A configuration that passes validation and omits \<open>session.rolling\<close>,
  \<open>session.rollingDuration\<close>, \<open>session.absoluteDuration\<close>, \<open>session.cookie.sameSite\<close>,
  \<open>session.cookie.httpOnly\<close>, the \<open>login\<close>, \<open>logout\<close> and \<open>callback\<close> routes,
  \<open>identityClaimFilter\<close>, \<open>idTokenSigningAlg\<close> and \<open>clockTolerance\<close> is validated to a
  \<open>Config\<close> with the documented defaults.
\<close>

theorem defaults_applied:
  assumes "paramsSchema_validate uri d p = Inr cfg"
    and "p_rolling (session_parameters_of p) = None"
    and "p_rollingDuration (session_parameters_of p) = None"
    and "p_absoluteDuration (session_parameters_of p) = None"
    and "p_sameSite (cookie_parameters_of p) = None"
    and "p_httpOnly (cookie_parameters_of p) = None"
    and "p_login (routes_parameters_of p) = None"
    and "p_logout (routes_parameters_of p) = None"
    and "p_callback (routes_parameters_of p) = None"
    and "p_identityClaimFilter p = None"
    and "p_idTokenSigningAlg p = None"
    and "p_clockTolerance p = None"
  shows "rolling (session cfg) = True
    \<and> rollingDuration (session cfg) = Seconds 86400
    \<and> absoluteDuration (session cfg) = Seconds 604800
    \<and> sameSite (cookie (session cfg)) = ''Lax''
    \<and> httpOnly (cookie (session cfg)) = True
    \<and> login (routes cfg) = Route ''/login''
    \<and> logout (routes cfg) = Route ''/logout''
    \<and> callback (routes cfg) = ''/callback''
    \<and> identityClaimFilter cfg =
        [''aud'', ''iss'', ''iat'', ''exp'', ''nbf'', ''nonce'', ''azp'', ''auth_time'', ''s_hash'',
         ''at_hash'', ''c_hash'']
    \<and> idTokenSigningAlg cfg = ''RS256''
    \<and> clockTolerance cfg = 60"
proof -
  note top = paramsSchema_validate_Inr [OF assms(1)]
  note ses = validate_session_Inr [OF top(1)]
  note coo = validate_cookie_Inr [OF ses(4)]
  note rou = validate_routes_Inr [OF top(5)]
  have r: "rolling (session cfg) = True"
    using ses(1) assms(2) by (simp add: session_parameters_of_def default_to_def)
  have rd: "rollingDuration (session cfg) = Seconds 86400"
    using ses(2) assms(3) r by (simp add: session_parameters_of_def validate_rollingDuration_def)
  have ad: "absoluteDuration (session cfg) = Seconds 604800"
    using ses(3) assms(4) by (simp add: session_parameters_of_def validate_absoluteDuration_def)
  have ss: "sameSite (cookie (session cfg)) = ''Lax''"
    using coo(2) assms(5) by (simp add: cookie_parameters_of_def session_parameters_of_def)
  have ho: "httpOnly (cookie (session cfg)) = True"
    using coo(1) assms(6) by (simp add: cookie_parameters_of_def session_parameters_of_def default_to_def)
  have lg: "login (routes cfg) = Route ''/login''"
    using rou(1) assms(7) by (simp add: routes_parameters_of_def validate_route_None)
  have lo: "logout (routes cfg) = Route ''/logout''"
    using rou(2) assms(8) by (simp add: routes_parameters_of_def validate_route_None)
  have cb: "callback (routes cfg) = ''/callback''"
    using rou(3) assms(9) by (simp add: routes_parameters_of_def)
  have icf: "identityClaimFilter cfg =
        [''aud'', ''iss'', ''iat'', ''exp'', ''nbf'', ''nonce'', ''azp'', ''auth_time'', ''s_hash'',
         ''at_hash'', ''c_hash'']"
    using top(7) assms(10) by (simp add: default_to_def default_identityClaimFilter_def)
  have alg: "idTokenSigningAlg cfg = ''RS256''"
    using validate_idTokenSigningAlg_Inr(1) [OF top(3)] assms(11) by (simp add: default_to_def)
  have ct: "clockTolerance cfg = 60"
    using top(6) assms(12) by simp
  show ?thesis
    using r rd ad ss ho lg lo cb icf alg ct by simp
qed

lemma required_parameters_valid:
  "paramsSchema_validate simple_uri () required_parameters
     = Inr (default_config)"
  by code_simp


theorem defaults_applied_witness:
  "\<exists>cfg. paramsSchema_validate simple_uri () required_parameters = Inr cfg
    \<and> rolling (session cfg) = True
    \<and> rollingDuration (session cfg) = Seconds 86400
    \<and> absoluteDuration (session cfg) = Seconds 604800
    \<and> sameSite (cookie (session cfg)) = ''Lax''
    \<and> httpOnly (cookie (session cfg)) = True
    \<and> login (routes cfg) = Route ''/login''
    \<and> logout (routes cfg) = Route ''/logout''
    \<and> callback (routes cfg) = ''/callback''
    \<and> identityClaimFilter cfg =
        [''aud'', ''iss'', ''iat'', ''exp'', ''nbf'', ''nonce'', ''azp'', ''auth_time'', ''s_hash'',
         ''at_hash'', ''c_hash'']
    \<and> idTokenSigningAlg cfg = ''RS256''
    \<and> clockTolerance cfg = 60"
proof -
  have omitted:
    "p_rolling (session_parameters_of required_parameters) = None"
    "p_rollingDuration (session_parameters_of required_parameters) = None"
    "p_absoluteDuration (session_parameters_of required_parameters) = None"
    "p_sameSite (cookie_parameters_of required_parameters) = None"
    "p_httpOnly (cookie_parameters_of required_parameters) = None"
    "p_login (routes_parameters_of required_parameters) = None"
    "p_logout (routes_parameters_of required_parameters) = None"
    "p_callback (routes_parameters_of required_parameters) = None"
    "p_identityClaimFilter required_parameters = None"
    "p_idTokenSigningAlg required_parameters = None"
    "p_clockTolerance required_parameters = None"
    by (simp_all add: required_parameters_def no_parameters_def session_parameters_of_def
        cookie_parameters_of_def routes_parameters_of_def default_to_def no_session_parameters_def
        no_cookie_parameters_def no_routes_parameters_def)
  show ?thesis
    using defaults_applied [OF required_parameters_valid omitted] required_parameters_valid
    by blast
qed


lemma code_flow_parameters_valid:
  "paramsSchema_validate simple_uri () code_flow_parameters
     = Inr (default_config\<lparr>authorizationParams := (authorizationParams default_config)\<lparr>response_mode := None, response_type := ''code''\<rparr>, clientSecret := Some ''my_client_secret''\<rparr>)"
  by code_simp

text \<open>
  For the response type \<open>code\<close> an omitted \<open>response_mode\<close> is not defaulted: the
  validated configuration has no response mode, and so not the mode \<open>query\<close>.
\<close>

theorem response_mode_absent_counterexample:
  "\<not> isl (paramsSchema_validate simple_uri () code_flow_parameters)
   \<and> response_type (authorizationParams (projr (paramsSchema_validate simple_uri () code_flow_parameters)))
       = ''code''
   \<and> response_mode (authorizationParams (projr (paramsSchema_validate simple_uri () code_flow_parameters)))
       \<noteq> Some ''query''"
  by (simp add: code_flow_parameters_valid default_config_def)

lemma validate_response_mode_Inr:
  assumes "validate_response_mode t v = Inr m"
  shows "t \<noteq> ''code'' \<Longrightarrow> m = Some ''form_post''"
    and "t = ''code'' \<Longrightarrow> m = None \<or> m = Some ''query''"
    and "v = Some x \<Longrightarrow> x = (if t = ''code'' then ''query'' else ''form_post'')"
  using assms unfolding validate_response_mode_def
  by (auto split: option.splits if_splits)

text \<open>
  C6 (amended). In every validated \<open>Config\<close> the response mode is \<open>form_post\<close> whenever
  the response type is \<open>id_token\<close> or \<open>code id_token\<close>, and it is \<open>query\<close> or absent
  whenever the response type is \<open>code\<close>. Parameters that supply a response mode other
  than the one their response type (\<open>id_token\<close> when omitted) allows are rejected: \<open>code\<close>
  with anything but \<open>query\<close>, any other type with anything but \<open>form_post\<close>.
\<close>

theorem response_mode_invariant:
  "(paramsSchema_validate uri d p = Inr cfg \<longrightarrow>
      (response_type (authorizationParams cfg) = ''id_token''
         \<or> response_type (authorizationParams cfg) = ''code id_token''
       \<longrightarrow> response_mode (authorizationParams cfg) = Some ''form_post'')
      \<and> (response_type (authorizationParams cfg) = ''code''
       \<longrightarrow> response_mode (authorizationParams cfg) = None
           \<or> response_mode (authorizationParams cfg) = Some ''query''))
   \<and> (p_response_mode (authorization_input_of p) = Some m
      \<and> m \<noteq> (if default_to ''id_token'' (p_response_type (authorization_input_of p)) = ''code''
               then ''query'' else ''form_post'')
      \<longrightarrow> isl (paramsSchema_validate uri d p))"
proof -
  have valid: "(response_type (authorizationParams cfg) = ''id_token''
         \<or> response_type (authorizationParams cfg) = ''code id_token''
       \<longrightarrow> response_mode (authorizationParams cfg) = Some ''form_post'')
      \<and> (response_type (authorizationParams cfg) = ''code''
       \<longrightarrow> response_mode (authorizationParams cfg) = None
           \<or> response_mode (authorizationParams cfg) = Some ''query'')"
    if "paramsSchema_validate uri d p = Inr cfg"
  proof -
    note ap = validate_authorizationParams_Inr [OF paramsSchema_validate_Inr(2) [OF that]]
    show ?thesis
      using validate_response_mode_Inr(1,2) [OF ap(3)] by auto
  qed
  have rejected: "isl (paramsSchema_validate uri d p)"
    if m: "p_response_mode (authorization_input_of p) = Some m"
      and bad: "m \<noteq> (if default_to ''id_token'' (p_response_type (authorization_input_of p)) = ''code''
               then ''query'' else ''form_post'')"
  proof (rule ccontr)
    assume "\<not> isl (paramsSchema_validate uri d p)"
    then obtain c where c: "paramsSchema_validate uri d p = Inr c"
      by (cases "paramsSchema_validate uri d p") auto
    note ap = validate_authorizationParams_Inr [OF paramsSchema_validate_Inr(2) [OF c]]
    have "m = (if response_type (authorizationParams c) = ''code'' then ''query'' else ''form_post'')"
      using validate_response_mode_Inr(3) [OF ap(3)] m by (simp add: authorization_input_of_def)
    then show False
      using bad ap(1) by (simp add: authorization_input_of_def)
  qed
  show ?thesis using valid rejected by blast
qed


theorem response_mode_invariant_witness:
  "response_mode (authorizationParams (projr (paramsSchema_validate simple_uri () required_parameters)))
      = Some ''form_post''
   \<and> response_mode (authorizationParams (projr (paramsSchema_validate simple_uri () code_flow_parameters)))
      = None
   \<and> isl (paramsSchema_validate simple_uri () (with_response_mode (Some ''form_post'') code_flow_parameters))
   \<and> isl (paramsSchema_validate simple_uri () (with_response_mode (Some ''query'') required_parameters))"
proof -
  have a: "p_response_mode (authorization_input_of (with_response_mode (Some ''form_post'') code_flow_parameters))
             = Some ''form_post''"
      "default_to ''id_token'' (p_response_type (authorization_input_of
           (with_response_mode (Some ''form_post'') code_flow_parameters))) = ''code''"
    by (simp_all add: with_response_mode_def authorization_input_of_def default_to_def
        code_flow_parameters_def no_authorization_input_def)
  have b: "p_response_mode (authorization_input_of (with_response_mode (Some ''query'') required_parameters))
             = Some ''query''"
      "default_to ''id_token'' (p_response_type (authorization_input_of
           (with_response_mode (Some ''query'') required_parameters))) = ''id_token''"
    by (simp_all add: with_response_mode_def authorization_input_of_def default_to_def
        required_parameters_def no_parameters_def no_authorization_input_def)
  show ?thesis
    using response_mode_invariant [of simple_uri "()" required_parameters
          "projr (paramsSchema_validate simple_uri () required_parameters)" "''none''"]
      response_mode_invariant [of simple_uri "()" code_flow_parameters
          "projr (paramsSchema_validate simple_uri () code_flow_parameters)" "''none''"]
      response_mode_invariant [of simple_uri "()"
          "with_response_mode (Some ''form_post'') code_flow_parameters" undefined "''form_post''"]
      response_mode_invariant [of simple_uri "()"
          "with_response_mode (Some ''query'') required_parameters" undefined "''query''"]
      a b
    by (simp add: required_parameters_valid code_flow_parameters_valid default_config_def)
qed

text \<open>
  Validation reports the first failing key only. Parameters that omit \<open>clientSecret\<close>
  for the response type \<open>code\<close> and also omit \<open>secret\<close> fail with the error of
  \<open>secret\<close>, not one that names \<open>clientSecret\<close>.
\<close>

theorem first_error_counterexample:
  "p_clientSecret code_flow_without_secrets = None
   \<and> needs_clientSecret code_flow_without_secrets
   \<and> paramsSchema_validate simple_uri () code_flow_without_secrets = Inl (JoiError ''secret'' None)"
  by (simp add: code_flow_without_secrets_def code_flow_parameters_def required_parameters_def
      no_parameters_def needs_clientSecret_def authorization_input_of_def default_to_def
      no_authorization_input_def paramsSchema_validate_def validate_secret_def fail_def)

lemma validate_clientSecret_None:
  "validate_clientSecret t alg None =
     (if startsWith alg ''HS'' then fail_with ''clientSecret'' clientSecret_hmac_message
      else if str_includes t ''code'' then fail_with ''clientSecret'' clientSecret_code_message
      else Inr None)"
  by (simp add: validate_clientSecret_def)

lemma change_clientSecret:
  assumes "paramsSchema_validate uri d (p\<lparr>p_clientSecret := Some s\<rparr>) = Inr cfg"
  shows "paramsSchema_validate uri d (p\<lparr>p_clientSecret := v\<rparr>) =
     (case validate_clientSecret (response_type (authorizationParams cfg)) (idTokenSigningAlg cfg) v of
        Inl e \<Rightarrow> Inl e
      | Inr cs \<Rightarrow> Inr (cfg\<lparr>clientSecret := cs\<rparr>))"
  using assms unfolding paramsSchema_validate_def
  by (auto simp: and_then_Inr split: sum.splits)

lemma needs_clientSecret_validated:
  assumes "paramsSchema_validate uri d (p\<lparr>p_clientSecret := v\<rparr>) = Inr cfg"
  shows "needs_clientSecret p \<longleftrightarrow>
     str_includes (response_type (authorizationParams cfg)) ''code''
     \<or> startsWith (idTokenSigningAlg cfg) ''HS''"
  using validate_authorizationParams_Inr(1) [OF paramsSchema_validate_Inr(2) [OF assms]]
    validate_idTokenSigningAlg_Inr(1) [OF paramsSchema_validate_Inr(3) [OF assms]]
  by (simp add: needs_clientSecret_def authorization_input_of_def)

text \<open>
  C7 (amended). Validation fails for all parameters that omit \<open>clientSecret\<close> while the
  response type includes \<open>code\<close> or the signing algorithm starts with \<open>HS\<close>. The error
  names \<open>clientSecret\<close>, with the message of the schema, whenever the parameters are valid
  once a client secret is supplied. When neither condition holds, omitting
  \<open>clientSecret\<close> from parameters that are valid with one leaves them valid, with no
  client secret in the \<open>Config\<close>.
\<close>

theorem clientSecret_required:
  "(p_clientSecret p = None \<and> needs_clientSecret p \<longrightarrow> isl (paramsSchema_validate uri d p))
   \<and> (p_clientSecret p = None \<and> needs_clientSecret p
        \<and> paramsSchema_validate uri d (p\<lparr>p_clientSecret := Some s\<rparr>) = Inr cfg
      \<longrightarrow> (\<exists>msg. paramsSchema_validate uri d p = Inl (JoiError ''clientSecret'' (Some msg))))
   \<and> (p_clientSecret p = None \<and> \<not> needs_clientSecret p
        \<and> paramsSchema_validate uri d (p\<lparr>p_clientSecret := Some s\<rparr>) = Inr cfg
      \<longrightarrow> paramsSchema_validate uri d p = Inr (cfg\<lparr>clientSecret := None\<rparr>))"
proof -
  have fails: "isl (paramsSchema_validate uri d p)"
    if none: "p_clientSecret p = None" and needs: "needs_clientSecret p"
  proof (rule ccontr)
    assume "\<not> isl (paramsSchema_validate uri d p)"
    then obtain c where c: "paramsSchema_validate uri d p = Inr c"
      by (cases "paramsSchema_validate uri d p") auto
    have "paramsSchema_validate uri d (p\<lparr>p_clientSecret := None\<rparr>) = Inr c"
      using c none by (metis config_parameters.surjective config_parameters.update_convs(7))
    from needs_clientSecret_validated [OF this] needs
    have "str_includes (response_type (authorizationParams c)) ''code''
        \<or> startsWith (idTokenSigningAlg c) ''HS''"
      by simp
    then show False
      using paramsSchema_validate_Inr(4) [OF c] none
      by (auto simp: validate_clientSecret_None split: if_splits)
  qed
  have same: "p\<lparr>p_clientSecret := None\<rparr> = p" if "p_clientSecret p = None"
    using that by (metis config_parameters.surjective config_parameters.update_convs(7))
  have named: "\<exists>msg. paramsSchema_validate uri d p = Inl (JoiError ''clientSecret'' (Some msg))"
    if none: "p_clientSecret p = None" and needs: "needs_clientSecret p"
      and ok: "paramsSchema_validate uri d (p\<lparr>p_clientSecret := Some s\<rparr>) = Inr cfg"
    using change_clientSecret [OF ok, of None] needs_clientSecret_validated [OF ok] needs same [OF none]
    by (auto simp: validate_clientSecret_None fail_with_def)
  have omitted: "paramsSchema_validate uri d p = Inr (cfg\<lparr>clientSecret := None\<rparr>)"
    if none: "p_clientSecret p = None" and needs: "\<not> needs_clientSecret p"
      and ok: "paramsSchema_validate uri d (p\<lparr>p_clientSecret := Some s\<rparr>) = Inr cfg"
    using change_clientSecret [OF ok, of None] needs_clientSecret_validated [OF ok] needs same [OF none]
    by (auto simp: validate_clientSecret_None)
  show ?thesis using fails named omitted by blast
qed


lemma code_flow_needs_clientSecret:
  "needs_clientSecret (code_flow_parameters\<lparr>p_clientSecret := None\<rparr>)"
  by (simp add: needs_clientSecret_def code_flow_parameters_def authorization_input_of_def
      default_to_def no_authorization_input_def)

lemma required_parameters_no_clientSecret:
  "p_clientSecret required_parameters = None" "\<not> needs_clientSecret required_parameters"
  by (simp_all add: needs_clientSecret_def required_parameters_def no_parameters_def
      authorization_input_of_def default_to_def no_authorization_input_def startsWith_def)

lemma required_parameters_with_clientSecret_valid:
  "paramsSchema_validate simple_uri () (required_parameters\<lparr>p_clientSecret := Some ''s''\<rparr>)
     = Inr (default_config\<lparr>clientSecret := Some ''s''\<rparr>)"
  by code_simp

theorem clientSecret_required_witness:
  "paramsSchema_validate simple_uri () (code_flow_parameters\<lparr>p_clientSecret := None\<rparr>)
      = Inl (JoiError ''clientSecret'' (Some clientSecret_code_message))
   \<and> \<not> isl (paramsSchema_validate simple_uri () required_parameters)
   \<and> clientSecret (projr (paramsSchema_validate simple_uri () required_parameters)) = None"
proof -
  let ?p = "code_flow_parameters\<lparr>p_clientSecret := None\<rparr>"
  have restored: "code_flow_parameters\<lparr>p_clientSecret := None, p_clientSecret := Some ''my_client_secret''\<rparr>
      = code_flow_parameters"
    by (simp add: code_flow_parameters_def)
  have none: "p_clientSecret ?p = None" by simp
  obtain msg where msg: "paramsSchema_validate simple_uri () ?p = Inl (JoiError ''clientSecret'' (Some msg))"
    using clientSecret_required [of ?p simple_uri "()" "''my_client_secret''"
        "projr (paramsSchema_validate simple_uri () code_flow_parameters)"]
      none code_flow_needs_clientSecret
    unfolding restored by (auto simp: code_flow_parameters_valid)
  have "paramsSchema_validate simple_uri () ?p
      = Inl (JoiError ''clientSecret'' (Some clientSecret_code_message))"
    by code_simp
  moreover have "\<not> isl (paramsSchema_validate simple_uri () required_parameters)
     \<and> clientSecret (projr (paramsSchema_validate simple_uri () required_parameters)) = None"
    using clientSecret_required [of required_parameters simple_uri "()" "''s''"
        "default_config\<lparr>clientSecret := Some ''s''\<rparr>"]
      required_parameters_no_clientSecret required_parameters_with_clientSecret_valid
    by simp
  ultimately show ?thesis using msg by simp
qed


lemma absolute_session_parameters_valid:
  "paramsSchema_validate simple_uri () absolute_session_parameters
     = Inr (default_config\<lparr>session := (session default_config)\<lparr>rolling := False, rollingDuration := Flag False\<rparr>\<rparr>)"
  by code_simp

lemma absolute_session_parameters_omit:
  "p_rolling (session_parameters_of absolute_session_parameters) = Some False"
  "p_absoluteDuration (session_parameters_of absolute_session_parameters) = None"
  by (simp_all add: absolute_session_parameters_def session_parameters_of_def default_to_def
      no_session_parameters_def)

text \<open>
  Parameters with \<open>session.rolling = false\<close> and no \<open>session.absoluteDuration\<close> are
  accepted: the absolute duration defaults to seven days.
\<close>

theorem absoluteDuration_not_required_counterexample:
  "p_rolling (session_parameters_of absolute_session_parameters) = Some False
   \<and> p_absoluteDuration (session_parameters_of absolute_session_parameters) = None
   \<and> \<not> isl (paramsSchema_validate simple_uri () absolute_session_parameters)
   \<and> absoluteDuration (session (projr (paramsSchema_validate simple_uri () absolute_session_parameters)))
       = Seconds 604800"
  by (simp add: absolute_session_parameters_omit absolute_session_parameters_valid default_config_def)

lemma integer_rule_604800: "integer_rule k 604800 = Inr 604800"
  by (simp add: integer_rule_def number_rule_def MAX_SAFE_INTEGER_def is_integer_def)

lemma validate_absoluteDuration_604800:
  "validate_absoluteDuration r (Some (Seconds 604800)) = validate_absoluteDuration r None"
  by (simp add: validate_absoluteDuration_def integer_rule_604800)

lemma validate_session_set_absoluteDuration:
  "validate_session uri (Some ((default_to no_session_parameters v)\<lparr>p_absoluteDuration := a\<rparr>)) =
     (let s = default_to no_session_parameters v;
          rolling' = default_to True (p_rolling s) in
      and_then (validate_rollingDuration rolling' (p_rollingDuration s)) (\<lambda>rollingDuration'.
      and_then (validate_absoluteDuration rolling' a) (\<lambda>absoluteDuration'.
      and_then (validate_name (p_name s)) (\<lambda>name'.
      and_then (validate_cookie uri (p_cookie s)) (\<lambda>cookie'.
      Inr \<lparr>name = name', rolling = rolling', rollingDuration = rollingDuration',
           absoluteDuration = absoluteDuration', cookie = cookie'\<rparr>)))))"
  by (simp add: validate_session_def default_to_def Let_def)

lemma validate_session_same_absoluteDuration:
  assumes "validate_absoluteDuration (default_to True (p_rolling (default_to no_session_parameters v))) a
      = validate_absoluteDuration (default_to True (p_rolling (default_to no_session_parameters v)))
          (p_absoluteDuration (default_to no_session_parameters v))"
  shows "validate_session uri (Some ((default_to no_session_parameters v)\<lparr>p_absoluteDuration := a\<rparr>))
      = validate_session uri v"
  unfolding validate_session_set_absoluteDuration
  using assms by (simp add: validate_session_def Let_def)

text \<open>
  A boolean absolute duration of a session that is not rolling is refused by the rule of
  \<open>session.absoluteDuration\<close>, whatever the other keys hold.
\<close>

lemma boolean_absoluteDuration_rejected:
  assumes "p_rolling (session_parameters_of q) = Some False"
    and "p_absoluteDuration (session_parameters_of q) = Some (Flag b)"
  shows "isl (paramsSchema_validate uri d q)"
proof -
  have "isl (validate_session uri (p_session q))"
    using assms unfolding validate_session_def session_parameters_of_def
    by (cases "validate_rollingDuration False
                 (p_rollingDuration (default_to no_session_parameters (p_session q)))")
       (simp_all add: Let_def default_to_def validate_absoluteDuration_def fail_with_def)
  then show ?thesis
    unfolding paramsSchema_validate_def
    by (cases "validate_secret (p_secret q)"; cases "validate_session uri (p_session q)") simp_all
qed

text \<open>
  C8 (amended). \<open>session.absoluteDuration\<close> is never required. For all parameters that
  omit it, rolling or not, validation behaves as if 604800 had been supplied, and a
  validated \<open>Config\<close> has the absolute duration 604800. All parameters whose session is
  set not to roll and whose absolute duration is a boolean are rejected; the error is the
  one of \<open>session.absoluteDuration\<close>, with the message of the schema for it, whenever the
  parameters without that key validate to a session that is not rolling (validation
  reports the first failing key only).
\<close>

theorem absoluteDuration_defaulted:
  assumes "p_absoluteDuration (session_parameters_of p) = None"
  shows "paramsSchema_validate uri d p
           = paramsSchema_validate uri d (with_absoluteDuration (Some (Seconds 604800)) p)
     \<and> (paramsSchema_validate uri d p = Inr cfg \<longrightarrow> absoluteDuration (session cfg) = Seconds 604800)
     \<and> (p_rolling (session_parameters_of q) = Some False
          \<and> p_absoluteDuration (session_parameters_of q) = Some (Flag b)
        \<longrightarrow> isl (paramsSchema_validate uri d q))
     \<and> (paramsSchema_validate uri d p = Inr cfg \<and> rolling (session cfg) = False
        \<longrightarrow> paramsSchema_validate uri d (with_absoluteDuration (Some (Flag b)) p)
              = Inl (JoiError ''session.absoluteDuration'' (Some absoluteDuration_integer_message)))"
proof -
  have "validate_session uri (Some ((session_parameters_of p)\<lparr>p_absoluteDuration := Some (Seconds 604800)\<rparr>))
      = validate_session uri (p_session p)"
    unfolding session_parameters_of_def
    by (rule validate_session_same_absoluteDuration)
       (use assms in \<open>simp add: session_parameters_of_def validate_absoluteDuration_604800\<close>)
  then have same: "paramsSchema_validate uri d p
           = paramsSchema_validate uri d (with_absoluteDuration (Some (Seconds 604800)) p)"
    by (simp add: paramsSchema_validate_def with_absoluteDuration_def)
  have dflt: "absoluteDuration (session cfg) = Seconds 604800"
    if ok: "paramsSchema_validate uri d p = Inr cfg"
    using validate_session_Inr(3) [OF paramsSchema_validate_Inr(1) [OF ok]] assms
    by (simp add: session_parameters_of_def validate_absoluteDuration_def)
  have flag: "paramsSchema_validate uri d (with_absoluteDuration (Some (Flag b)) p)
              = Inl (JoiError ''session.absoluteDuration'' (Some absoluteDuration_integer_message))"
    if ok: "paramsSchema_validate uri d p = Inr cfg" and abs: "rolling (session cfg) = False"
  proof -
    note ses = validate_session_Inr [OF paramsSchema_validate_Inr(1) [OF ok]]
    have "validate_session uri (Some ((session_parameters_of p)\<lparr>p_absoluteDuration := Some (Flag b)\<rparr>))
        = Inl (JoiError ''session.absoluteDuration'' (Some absoluteDuration_integer_message))"
      unfolding session_parameters_of_def validate_session_set_absoluteDuration
      using ses(1,2) abs
      by (simp add: Let_def validate_absoluteDuration_def fail_with_def)
    then show ?thesis
      using paramsSchema_validate_Inr(8) [OF ok]
      by (simp add: paramsSchema_validate_def with_absoluteDuration_def)
  qed
  show ?thesis
    using same dflt flag boolean_absoluteDuration_rejected [of q b uri d] by blast
qed

theorem absoluteDuration_defaulted_witness:
  "absoluteDuration (session (projr (paramsSchema_validate simple_uri () absolute_session_parameters)))
      = Seconds 604800
   \<and> absoluteDuration (session (projr (paramsSchema_validate simple_uri () required_parameters)))
      = Seconds 604800
   \<and> isl (paramsSchema_validate simple_uri ()
        ((with_absoluteDuration (Some (Flag False)) absolute_session_parameters)\<lparr>p_secret := None\<rparr>))
   \<and> paramsSchema_validate simple_uri ()
        (with_absoluteDuration (Some (Flag False)) absolute_session_parameters)
      = Inl (JoiError ''session.absoluteDuration'' (Some absoluteDuration_integer_message))"
proof -
  let ?q = "(with_absoluteDuration (Some (Flag False)) absolute_session_parameters)\<lparr>p_secret := None\<rparr>"
  have omitted: "p_absoluteDuration (session_parameters_of required_parameters) = None"
    by (simp add: required_parameters_def no_parameters_def session_parameters_of_def default_to_def
        no_session_parameters_def)
  have q: "p_rolling (session_parameters_of ?q) = Some False"
      "p_absoluteDuration (session_parameters_of ?q) = Some (Flag False)"
    by (simp_all add: with_absoluteDuration_def absolute_session_parameters_def
        session_parameters_of_def default_to_def no_session_parameters_def)
  have a: "paramsSchema_validate simple_uri () absolute_session_parameters
        = Inr (projr (paramsSchema_validate simple_uri () absolute_session_parameters))"
      "rolling (session (projr (paramsSchema_validate simple_uri () absolute_session_parameters))) = False"
    by (simp_all add: absolute_session_parameters_valid default_config_def)
  have b: "paramsSchema_validate simple_uri () required_parameters
        = Inr (projr (paramsSchema_validate simple_uri () required_parameters))"
    by (simp add: required_parameters_valid)
  show ?thesis
    using absoluteDuration_defaulted [OF absolute_session_parameters_omit(2), of simple_uri "()"
        "projr (paramsSchema_validate simple_uri () absolute_session_parameters)" ?q False]
      absoluteDuration_defaulted [OF omitted, of simple_uri "()"
        "projr (paramsSchema_validate simple_uri () required_parameters)" ?q False]
      a b q
    by blast
qed

text \<open>
  C9. Parameters whose \<open>idTokenSigningAlg\<close> is \<open>none\<close> in any letter case are rejected
  by the schema, and \<open>get\<close> raises a \<open>TypeError\<close> for them; no validated \<open>Config\<close> has
  a signing algorithm that is \<open>none\<close> in any letter case.
\<close>

theorem none_algorithm_rejected:
  "(p_idTokenSigningAlg p = Some alg \<and> toLowerCase alg = ''none''
      \<longrightarrow> isl (paramsSchema_validate uri d p) \<and> (\<exists>err. get uri d e (Some p) = Inl (TypeError err)))
   \<and> (paramsSchema_validate uri d p = Inr cfg \<longrightarrow> toLowerCase (idTokenSigningAlg cfg) \<noteq> ''none'')
   \<and> (get uri d e params = Inr cfg \<longrightarrow> toLowerCase (idTokenSigningAlg cfg) \<noteq> ''none'')"
proof -
  have accepted: "toLowerCase (idTokenSigningAlg c) \<noteq> ''none''"
    if "paramsSchema_validate uri d q = Inr c" for q c
    using validate_idTokenSigningAlg_Inr(2) [OF paramsSchema_validate_Inr(3) [OF that]] .
  have rejected: "isl (paramsSchema_validate uri d q)"
    if "p_idTokenSigningAlg q = Some alg" and "toLowerCase alg = ''none''" for q
  proof (rule ccontr)
    assume "\<not> isl (paramsSchema_validate uri d q)"
    then obtain c where c: "paramsSchema_validate uri d q = Inr c"
      by (cases "paramsSchema_validate uri d q") auto
    show False
      using paramsSchema_validate_Inr(3) [OF c] that
      by (simp add: validate_idTokenSigningAlg_def)
  qed
  have thrown: "\<exists>err. get uri d e (Some p) = Inl (TypeError err)"
    if "p_idTokenSigningAlg p = Some alg" and "toLowerCase alg = ''none''"
  proof -
    have "isl (paramsSchema_validate uri d (with_env e p))"
      using that by (intro rejected) (simp_all add: with_env_def)
    then show ?thesis
      by (cases "paramsSchema_validate uri d (with_env e p)") (simp_all add: get_def default_to_def)
  qed
  have got: "toLowerCase (idTokenSigningAlg cfg) \<noteq> ''none''" if "get uri d e params = Inr cfg"
    using that accepted [of "with_env e (default_to no_parameters params)" cfg]
    by (cases "paramsSchema_validate uri d (with_env e (default_to no_parameters params))")
       (simp_all add: get_def)
  show ?thesis using accepted rejected thrown got by blast
qed

theorem none_algorithm_rejected_witness:
  "isl (paramsSchema_validate simple_uri () (required_parameters\<lparr>p_idTokenSigningAlg := Some ''NoNe''\<rparr>))
   \<and> (\<exists>err. get simple_uri () no_env (Some (required_parameters\<lparr>p_idTokenSigningAlg := Some ''NoNe''\<rparr>))
        = Inl (TypeError err))
   \<and> toLowerCase (idTokenSigningAlg (projr (paramsSchema_validate simple_uri () required_parameters)))
       \<noteq> ''none''"
proof -
  have lower: "toLowerCase ''NoNe'' = ''none''"
    by (simp add: toLowerCase_def toLowerChar_def)
  have alg: "p_idTokenSigningAlg (required_parameters\<lparr>p_idTokenSigningAlg := Some ''NoNe''\<rparr>) = Some ''NoNe''"
    by simp
  show ?thesis
    using none_algorithm_rejected [of "required_parameters\<lparr>p_idTokenSigningAlg := Some ''NoNe''\<rparr>"
        "''NoNe''" simple_uri "()" no_env undefined undefined]
      none_algorithm_rejected [of required_parameters "''x''" simple_uri "()" no_env
        "projr (paramsSchema_validate simple_uri () required_parameters)" None]
      lower alg
    by (simp add: required_parameters_valid)
qed

end
